theory Spec2Isabelle
  imports Main
begin

section \<open>JavaScript strings and library values\<close>

text \<open>
  The proxy is one TypeScript class, \<open>HttpsProxy\<close> (https-server.ts). Strings are
  modelled as lists of 8-bit code units: Node decodes the request line and the header
  block one byte per character, and every test the program makes on them (the host
  name pattern, the control character pattern, \<open>parseInt\<close>) looks at one code unit
  at a time.
\<close>

definition CRLF :: string where
  "CRLF = [CHR 0x0D, CHR 0x0A]"

text \<open>\<open>s.startsWith(p)\<close>.\<close>

definition startsWith :: "string \<Rightarrow> string \<Rightarrow> bool" where
  "startsWith s p = (take (length p) s = p)"

text \<open>\<open>s.includes(sub)\<close>: \<open>sub\<close> occurs somewhere in \<open>s\<close>.\<close>

fun js_includes :: "string \<Rightarrow> string \<Rightarrow> bool" where
  "js_includes [] sub = (sub = [])"
| "js_includes (c # cs) sub = (startsWith (c # cs) sub \<or> js_includes cs sub)"

text \<open>\<open>s.split(':')\<close>: the pieces between the colons; never an empty array.\<close>

fun split_colon :: "string \<Rightarrow> string list" where
  "split_colon [] = [[]]"
| "split_colon (c # cs) =
     (if c = CHR '':'' then [] # split_colon cs
      else (case split_colon cs of
              [] \<Rightarrow> [[c]]
            | p # ps \<Rightarrow> (c # p) # ps))"

text \<open>
  \<open>parseInt(s, 10)\<close>: white space is skipped, one sign is read, then the longest run
  of decimal digits; no digit at all gives \<open>NaN\<close>, here \<open>None\<close>. White space is the
  ECMAScript set restricted to one-byte code units (TAB, LF, VT, FF, CR, SP, NBSP).
  JavaScript returns a double; the program only compares the result with 0, 65535 and
  443 and uses it as a port when it lies in 1..65535, where doubles are exact, and
  rounding a longer digit string never moves it across those bounds. So an unbounded
  \<open>int\<close> stands for it: which targets pass is the same, while for a digit string
  beyond \<open>2^53\<close> the number is the one written, not the double the program holds.
\<close>

definition js_whitespace :: "char \<Rightarrow> bool" where
  "js_whitespace c = ((of_char c :: nat) \<in> {9, 10, 11, 12, 13, 32, 160})"

definition is_digit :: "char \<Rightarrow> bool" where
  "is_digit c = (48 \<le> (of_char c :: nat) \<and> (of_char c :: nat) \<le> 57)"

definition digits_value :: "string \<Rightarrow> nat" where
  "digits_value ds = foldl (\<lambda>acc c. 10 * acc + ((of_char c :: nat) - 48)) 0 ds"

definition parseInt :: "string \<Rightarrow> int option" where
  "parseInt s =
     (let t = dropWhile js_whitespace s;
          neg = (t \<noteq> [] \<and> hd t = CHR ''-'');
          u = (if t \<noteq> [] \<and> (hd t = CHR ''-'' \<or> hd t = CHR ''+'') then tl t else t);
          ds = takeWhile is_digit u
      in if ds = [] then None
         else Some (if neg then - int (digits_value ds) else int (digits_value ds)))"

text \<open>Decimal text of a number, as a template literal prints a port.\<close>

fun decimal :: "nat \<Rightarrow> string" where
  "decimal n =
     (if n < 10 then [char_of (48 + n)]
      else decimal (n div 10) @ [char_of (48 + n mod 10)])"

declare decimal.simps [simp del]

text \<open>
  Two parsers come from the Node runtime, not from this repository, and are taken as
  parameters wherever the program calls them:
  \<^item> \<open>url.parse\<close>, the legacy parser, of which the program reads \<open>hostname\<close> and
    \<open>port\<close> (each a string or \<open>null\<close>);
  \<^item> \<open>new URL\<close>, the WHATWG parser, which throws on a string that is not a URL
    (\<open>None\<close>) and otherwise gives the fields below.
\<close>

record legacy_url =
  lu_hostname :: "string option"
  lu_port :: "string option"

record whatwg_url =
  protocol :: string
  hostname :: string
  port :: string
  pathname :: string
  search :: string

text \<open>\<open>a || b\<close> on strings.\<close>

definition or_else :: "string option \<Rightarrow> string \<Rightarrow> string" where
  "or_else v d = (case v of None \<Rightarrow> d | Some s \<Rightarrow> if s = [] then d else s)"

section \<open>The server object\<close>

text \<open>
  Of the constructor's fields the handlers read \<open>port\<close>, \<open>timeout\<close> and
  \<open>upstreamProxy\<close>; the TLS material is not part of any handler's decision.
  \<open>options.port || 10443\<close> and \<open>options.timeout || 30000\<close> take the default for a
  missing value and for 0.
\<close>

record server =
  srv_port :: nat
  srv_timeout :: nat
  upstreamProxy :: "string option"

record HttpsProxyOptions =
  opt_port :: "nat option"
  opt_timeout :: "nat option"

definition nat_or_else :: "nat option \<Rightarrow> nat \<Rightarrow> nat" where
  "nat_or_else v d = (case v of None \<Rightarrow> d | Some n \<Rightarrow> if n = 0 then d else n)"

text \<open>\<open>s.trim()\<close>: white space removed at both ends.\<close>

definition js_trim :: "string \<Rightarrow> string" where
  "js_trim s = rev (dropWhile js_whitespace (rev (dropWhile js_whitespace s)))"

text \<open>
  \<open>detectUpstreamProxy\<close>: the first of the six environment variables (given in the
  source's order, \<open>None\<close> for an unset one) whose value is not blank, trimmed.
\<close>

fun detectUpstreamProxy :: "string option list \<Rightarrow> string option" where
  "detectUpstreamProxy [] = None"
| "detectUpstreamProxy (v # vs) =
     (case v of
        None \<Rightarrow> detectUpstreamProxy vs
      | Some proxy \<Rightarrow>
          if proxy \<noteq> [] \<and> js_trim proxy \<noteq> [] then Some (js_trim proxy)
          else detectUpstreamProxy vs)"

definition new_HttpsProxy :: "HttpsProxyOptions \<Rightarrow> string option list \<Rightarrow> server" where
  "new_HttpsProxy options env =
     \<lparr> srv_port = nat_or_else (opt_port options) 10443,
       srv_timeout = nat_or_else (opt_timeout options) 30000,
       upstreamProxy = detectUpstreamProxy env \<rparr>"

subsection \<open>createProxyAgent\<close>

datatype agent =
    SocksProxyAgent string
  | HttpProxyAgent string
  | HttpsProxyAgent string

text \<open>
  \<open>None\<close> is the source's \<open>undefined\<close>: no upstream configured, an upstream URL that
  does not parse (the \<open>catch\<close>), or a protocol the function does not know.
\<close>

definition createProxyAgent ::
  "(string \<Rightarrow> whatwg_url option) \<Rightarrow> server \<Rightarrow> string \<Rightarrow> bool \<Rightarrow> agent option" where
  "createProxyAgent URL_new srv targetUrl isConnectMethod =
     (case upstreamProxy srv of
        None \<Rightarrow> None
      | Some up \<Rightarrow>
          if up = [] then None
          else
            (case URL_new up of
               None \<Rightarrow> None
             | Some upstreamProxyUrl \<Rightarrow>
                 if protocol upstreamProxyUrl = ''socks5:'' \<or> protocol upstreamProxyUrl = ''socks4:''
                 then Some (SocksProxyAgent up)
                 else if protocol upstreamProxyUrl = ''http:'' then Some (HttpProxyAgent up)
                 else if protocol upstreamProxyUrl = ''https:'' then
                   (if isConnectMethod then Some (HttpsProxyAgent up)
                    else (case URL_new targetUrl of
                            None \<Rightarrow> None
                          | Some targetUrlObj \<Rightarrow>
                              if protocol targetUrlObj = ''https:'' then Some (HttpsProxyAgent up)
                              else Some (HttpProxyAgent up)))
                 else None))"

section \<open>Forward fetch: handleHttpRequest and the request listener\<close>

text \<open>
  An incoming request as the handlers read it: \<open>req.method\<close>, \<open>req.url\<close> and
  \<open>req.headers\<close>, whose keys Node has already put in lower case.
\<close>

record request =
  req_method :: "string option"
  req_url :: "string option"
  req_headers :: "string \<rightharpoonup> string"

text \<open>
  The bodies of the local answers are Chinese texts and an HTML page; the model keeps
  which one was sent and the value interpolated into it.
\<close>

datatype body =
    NoBody
  | MissingUrlText
  | UnsupportedMethodText "string option"
  | UseConnectText
  | StatusPage nat
  | InvalidUrlText string
  | UnsupportedProtocolText string

datatype transport = UseAgent agent | NewHttpsAgent | DefaultAgent

text \<open>The \<open>options\<close> object handed to \<open>http.request\<close> / \<open>https.request\<close>.\<close>

record fetch_options =
  f_https :: bool
  f_hostname :: string
  f_port :: string
  f_path :: string
  f_method :: string
  f_headers :: "string \<rightharpoonup> string"
  f_rejectUnauthorized :: "bool option"
  f_agent :: transport

datatype outcome =
    Respond nat "(string \<times> string) list" body
  | Fetch fetch_options

definition validMethods :: "string list" where
  "validMethods = [''GET'', ''POST'', ''PUT'', ''DELETE'', ''HEAD'', ''OPTIONS'', ''PATCH'']"

definition text_plain :: "(string \<times> string) list" where
  "text_plain = [(''Content-Type'', ''text/plain; charset=utf-8'')]"

definition text_html :: "(string \<times> string) list" where
  "text_html = [(''Content-Type'', ''text/html; charset=utf-8'')]"

text \<open>
  The test for TLS bytes taken for an HTTP request: no \<open>host\<close> header, an empty one,
  one longer than 255, or one matching \<open>/[\x00-\x1f\x7f-\xff]/\<close>.
\<close>

definition control_or_high :: "char \<Rightarrow> bool" where
  "control_or_high c = ((of_char c :: nat) \<le> 0x1f \<or> 0x7f \<le> (of_char c :: nat))"

definition suspicious_host :: "string option \<Rightarrow> bool" where
  "suspicious_host h =
     (case h of
        None \<Rightarrow> True
      | Some v \<Rightarrow> v = [] \<or> length v > 255 \<or> list_ex control_or_high v)"

text \<open>The eight \<open>delete options.headers[...]\<close> statements, in the source's order.\<close>

definition strip_headers :: "(string \<rightharpoonup> string) \<Rightarrow> (string \<rightharpoonup> string)" where
  "strip_headers hs =
     hs(''host'' := None, ''proxy-connection'' := None, ''proxy-authorization'' := None,
        ''connection'' := None, ''upgrade'' := None, ''sec-websocket-key'' := None,
        ''sec-websocket-version'' := None, ''sec-websocket-protocol'' := None)"

text \<open>
  The \<open>Host\<close> header of the outbound request: set only for a non-empty host name; the
  port is appended when the outer condition holds and the port text is not empty.
\<close>

definition set_host :: "bool \<Rightarrow> whatwg_url \<Rightarrow> (string \<rightharpoonup> string) \<Rightarrow> (string \<rightharpoonup> string)" where
  "set_host isHttps parsedUrl hs =
     (if hostname parsedUrl \<noteq> [] then
        hs(''host'' \<mapsto>
           hostname parsedUrl @
           (if port parsedUrl \<noteq> [] \<or> (\<not> isHttps \<and> port parsedUrl \<noteq> ''80'')
                 \<or> (isHttps \<and> port parsedUrl \<noteq> ''443'')
            then (if port parsedUrl \<noteq> [] then '':'' @ port parsedUrl else [])
            else []))
      else hs)"

definition forward ::
  "(string \<Rightarrow> whatwg_url option) \<Rightarrow> server \<Rightarrow> string \<Rightarrow> string \<Rightarrow> (string \<rightharpoonup> string)
     \<Rightarrow> whatwg_url \<Rightarrow> fetch_options" where
  "forward URL_new srv meth targetUrl headers parsedUrl =
     (let isHttps = (protocol parsedUrl = ''https:'');
          proxyAgent = createProxyAgent URL_new srv targetUrl False
      in \<lparr> f_https = isHttps,
           f_hostname = hostname parsedUrl,
           f_port = (if port parsedUrl \<noteq> [] then port parsedUrl
                     else if isHttps then ''443'' else ''80''),
           f_path = pathname parsedUrl @ search parsedUrl,
           f_method = meth,
           f_headers = set_host isHttps parsedUrl (strip_headers headers),
           f_rejectUnauthorized = (if isHttps then Some True else None),
           f_agent =
             (case proxyAgent of
                Some a \<Rightarrow> UseAgent a
              | None \<Rightarrow> if isHttps then NewHttpsAgent else DefaultAgent) \<rparr>)"

text \<open>
  \<open>handleHttpRequest\<close> up to the call of \<open>httpModule.request\<close>: either a local
  answer (\<open>res.writeHead\<close> and \<open>res.end\<close>) or the outbound request it builds
  (\<open>forward\<close> above is the part from \<open>const isHttps\<close> on).
\<close>

definition handleHttpRequest ::
  "(string \<Rightarrow> whatwg_url option) \<Rightarrow> server \<Rightarrow> request \<Rightarrow> outcome" where
  "handleHttpRequest URL_new srv req =
     (case req_url req of
        None \<Rightarrow> Respond 400 text_plain MissingUrlText
      | Some targetUrl \<Rightarrow>
          if targetUrl = [] then Respond 400 text_plain MissingUrlText
          else
            (case req_method req of
               None \<Rightarrow> Respond 405 text_plain (UnsupportedMethodText None)
             | Some meth \<Rightarrow>
                 if meth \<notin> set validMethods
                 then Respond 405 text_plain (UnsupportedMethodText (Some meth))
                 else if \<not> startsWith targetUrl ''http://'' \<and> \<not> startsWith targetUrl ''https://''
                 then
                   (if suspicious_host (req_headers req ''host'')
                    then Respond 400 text_plain UseConnectText
                    else Respond 200 text_html (StatusPage (srv_port srv)))
                 else
                   (case URL_new targetUrl of
                      None \<Rightarrow> Respond 400 text_plain (InvalidUrlText targetUrl)
                    | Some parsedUrl \<Rightarrow>
                        if protocol parsedUrl \<noteq> ''http:'' \<and> protocol parsedUrl \<noteq> ''https:''
                        then Respond 400 text_plain (UnsupportedProtocolText (protocol parsedUrl))
                        else Fetch (forward URL_new srv meth targetUrl (req_headers req) parsedUrl))))"

text \<open>
  The listener that \<open>start\<close> gives to \<open>https.createServer\<close>: three CORS headers are
  set on every response, an \<open>OPTIONS\<close> request is answered at once, everything else
  goes to \<open>handleHttpRequest\<close>. The result is the headers set with \<open>setHeader\<close> and
  what happened next.
\<close>

definition cors_headers :: "(string \<times> string) list" where
  "cors_headers =
     [(''Access-Control-Allow-Origin'', ''*''),
      (''Access-Control-Allow-Methods'', ''*''),
      (''Access-Control-Allow-Headers'', ''*'')]"

definition requestListener ::
  "(string \<Rightarrow> whatwg_url option) \<Rightarrow> server \<Rightarrow> request \<Rightarrow> (string \<times> string) list \<times> outcome" where
  "requestListener URL_new srv req =
     (cors_headers,
      if req_method req = Some ''OPTIONS'' then Respond 200 [] NoBody
      else handleHttpRequest URL_new srv req)"

section \<open>CONNECT tunnels\<close>

subsection \<open>Target validation\<close>

text \<open>
  The first half of \<open>handleConnect\<close>. With a colon in \<open>req.url\<close> the host is the
  piece before the first colon and the port the piece after it (\<open>'443'\<close> when that
  piece is empty); without one, \<open>url.parse('//' + req.url)\<close> is asked, and
  \<open>req.url\<close> and \<open>'443'\<close> stand in for what it leaves out.
\<close>

definition parse_target :: "(string \<Rightarrow> legacy_url) \<Rightarrow> string \<Rightarrow> string \<times> int option" where
  "parse_target url_parse u =
     (if CHR '':'' \<in> set u then
        (case split_colon u of
           [] \<Rightarrow> ([], parseInt ''443'')
         | [h] \<Rightarrow> (h, parseInt ''443'')
         | h # p # _ \<Rightarrow> (h, parseInt (if p = [] then ''443'' else p)))
      else
        (let parsed = url_parse (''//'' @ u)
         in (or_else (lu_hostname parsed) u, parseInt (or_else (lu_port parsed) ''443''))))"

text \<open>The pattern \<open>/^[a-zA-Z0-9.-]+$/\<close>: one character of the class.\<close>

definition hostname_char :: "char \<Rightarrow> bool" where
  "hostname_char c =
     (let n = (of_char c :: nat)
      in (97 \<le> n \<and> n \<le> 122) \<or> (65 \<le> n \<and> n \<le> 90) \<or> (48 \<le> n \<and> n \<le> 57)
         \<or> c = CHR ''.'' \<or> c = CHR ''-'')"

definition hostname_pattern :: "string \<Rightarrow> bool" where
  "hostname_pattern h = (h \<noteq> [] \<and> list_all hostname_char h)"

text \<open>
  The texts sent with an error status are Chinese sentences with a value interpolated;
  the model keeps which sentence and which value. \<open>InvalidPort\<close> carries what
  \<open>parseInt\<close> read, as the integer written in the target; how the program prints
  that number is not modelled.
\<close>

datatype reason =
    MissingUrl
  | InvalidHostname string
  | HostnameFormat string
  | InvalidPort "int option"
  | ClientState
  | NoProxyAgent
  | ProxyFailed string
  | ProxyTimeout
  | TargetFailed string

text \<open>
  The three checks on host and port, in the source's order: \<open>Inl\<close> is the message of
  the \<open>400 Bad Request\<close> that check sends, \<open>Inr\<close> the host and port the handler
  goes on with.
\<close>

definition validate_target :: "(string \<Rightarrow> legacy_url) \<Rightarrow> string option \<Rightarrow> reason + string \<times> nat" where
  "validate_target url_parse url =
     (case url of
        None \<Rightarrow> Inl MissingUrl
      | Some u \<Rightarrow>
          if u = [] then Inl MissingUrl
          else
            (let (h, targetPort) = parse_target url_parse u in
             if h = [] \<or> h = ''null'' \<or> h = ''undefined'' then Inl (InvalidHostname u)
             else if \<not> hostname_pattern h \<or> length h > 253 then Inl (HostnameFormat h)
             else
               (case targetPort of
                  None \<Rightarrow> Inl (InvalidPort None)
                | Some n \<Rightarrow>
                    if n \<le> 0 \<or> n > 65535 then Inl (InvalidPort (Some n))
                    else Inr (h, nat n))))"

subsection \<open>The two sockets of a connection\<close>

text \<open>
  A connection is the client's socket and, once dialled, the outbound socket. The
  record keeps what the handlers read (\<open>destroyed\<close>) and set (the idle timeout), the
  listeners they have registered, the flag \<open>connectionClosed\<close> of the closure that
  \<open>setupSocketErrorHandlers\<close> creates, and the calls made on the two sockets in
  program order. \<open>cleanups\<close> counts how often the body of \<open>cleanup\<close> ran past its
  guard. Log lines, keep-alive, \<open>setNoDelay\<close> and \<open>setMaxListeners\<close> are left out:
  nothing reads them back.
\<close>

datatype side = Client | Outbound

datatype payload = Bytes string | Message reason

datatype action =
    Write side payload
  | EndStream side
  | Unpipe side
  | Destroy side
  | Pipe side
  | AbortRequest

datatype dial =
    Direct string nat
  | ViaProxy agent string nat nat

record conn =
  client_destroyed :: bool
  outbound_destroyed :: bool
  client_timeout :: "nat option"
  outbound_timeout :: "nat option"
  dialing :: "dial option"
  dial_error_listener :: bool
  splice_listeners :: bool
  connectionClosed :: bool
  cleanups :: nat
  trace :: "action list"

text \<open>A connection on which the handler has done nothing yet.\<close>

definition accepted :: conn where
  "accepted =
     \<lparr> client_destroyed = False, outbound_destroyed = False,
       client_timeout = None, outbound_timeout = None,
       dialing = None, dial_error_listener = False, splice_listeners = False,
       connectionClosed = False, cleanups = 0, trace = [] \<rparr>"

definition emit :: "action list \<Rightarrow> conn \<Rightarrow> conn" where
  "emit acts c = c\<lparr>trace := trace c @ acts\<rparr>"

definition sock_write :: "side \<Rightarrow> string \<Rightarrow> conn \<Rightarrow> conn" where
  "sock_write sd d c = emit [Write sd (Bytes d)] c"

definition is_destroyed :: "side \<Rightarrow> conn \<Rightarrow> bool" where
  "is_destroyed sd c = (case sd of Client \<Rightarrow> client_destroyed c | Outbound \<Rightarrow> outbound_destroyed c)"

definition mark_destroyed :: "side \<Rightarrow> conn \<Rightarrow> conn" where
  "mark_destroyed sd c =
     (case sd of
        Client \<Rightarrow> c\<lparr>client_destroyed := True\<rparr>
      | Outbound \<Rightarrow> c\<lparr>outbound_destroyed := True\<rparr>)"

text \<open>\<open>socket.destroy()\<close>.\<close>

definition destroy :: "side \<Rightarrow> conn \<Rightarrow> conn" where
  "destroy sd c = emit [Destroy sd] (mark_destroyed sd c)"

text \<open>\<open>a.setTimeout(ms)\<close> on both sockets: the new value replaces the old one.\<close>

definition set_timeouts :: "nat \<Rightarrow> conn \<Rightarrow> conn" where
  "set_timeouts ms c = c\<lparr>client_timeout := Some ms, outbound_timeout := Some ms\<rparr>"

subsection \<open>sendConnectError\<close>

definition sendConnectError :: "string \<Rightarrow> reason \<Rightarrow> conn \<Rightarrow> conn" where
  "sendConnectError status message c =
     (if \<not> client_destroyed c then
        emit [Write Client (Bytes (''HTTP/1.1 '' @ status @ CRLF)),
              Write Client (Bytes (''Content-Type: text/plain'' @ CRLF)),
              Write Client (Bytes CRLF),
              Write Client (Message message),
              EndStream Client] c
      else c)"

subsection \<open>setupSocketErrorHandlers\<close>

text \<open>
  The closure \<open>cleanup\<close>. A \<open>catch\<close> around each half swallows what \<open>unpipe\<close> or
  \<open>destroy\<close> might throw; neither throws on a socket, and the model has no such
  branch.
\<close>

definition cleanup :: "conn \<Rightarrow> conn" where
  "cleanup c =
     (if connectionClosed c then c
      else
        (let c1 = c\<lparr>connectionClosed := True, cleanups := cleanups c + 1\<rparr>;
             c2 = (if \<not> client_destroyed c1
                   then destroy Client (emit [Unpipe Client] c1) else c1);
             c3 = (if \<not> outbound_destroyed c2
                   then destroy Outbound (emit [Unpipe Outbound] c2) else c2)
         in c3))"

text \<open>The idle timeout that \<open>setupSocketErrorHandlers\<close> chooses.\<close>

definition timeoutMs :: "server \<Rightarrow> string \<Rightarrow> nat \<Rightarrow> nat" where
  "timeoutMs srv h targetPort =
     (if js_includes h ''tradingview'' \<or> targetPort = 443 then 60000 else srv_timeout srv)"

text \<open>
  The call itself: a fresh flag, the listeners registered on both sockets, and the
  idle timeout set on both with \<open>cleanup\<close> as its callback.
\<close>

definition setupSocketErrorHandlers :: "server \<Rightarrow> string \<Rightarrow> nat \<Rightarrow> conn \<Rightarrow> conn" where
  "setupSocketErrorHandlers srv h targetPort c =
     set_timeouts (timeoutMs srv h targetPort)
       (c\<lparr>connectionClosed := False, splice_listeners := True\<rparr>)"

subsection \<open>Socket events\<close>

text \<open>
  What the runtime can deliver on a socket. \<open>RuntimeDestroyed\<close> is the runtime
  marking a socket destroyed (the peer reset it, say) with no handler of the program
  running; \<open>SockError\<close> carries \<open>err.message\<close>.

  Listeners run in the order of their registration. On the outbound socket of a direct
  connection the listener of \<open>handleDirectConnect\<close> (which sends 502) was registered
  when the socket was created and is never removed, so it runs before the one of
  \<open>setupSocketErrorHandlers\<close>. \<open>error\<close>, \<open>close\<close>, \<open>end\<close> and the timeout
  callback of either socket all call \<open>cleanup\<close> once \<open>setupSocketErrorHandlers\<close>
  has run; before that the program has no listener for them.
\<close>

datatype event =
    SockError side string
  | SockClose side bool
  | SockEnd side
  | SockTimeout side
  | RuntimeDestroyed side

definition calls_cleanup :: "conn \<Rightarrow> conn" where
  "calls_cleanup c = (if splice_listeners c then cleanup c else c)"

fun on_event :: "event \<Rightarrow> conn \<Rightarrow> conn" where
  "on_event (SockError Outbound m) c =
     calls_cleanup
       (if dial_error_listener c then sendConnectError ''502 Bad Gateway'' (TargetFailed m) c
        else c)"
| "on_event (SockError Client m) c = calls_cleanup c"
| "on_event (SockClose sd hadError) c = calls_cleanup c"
| "on_event (SockEnd sd) c = calls_cleanup c"
| "on_event (SockTimeout sd) c = calls_cleanup c"
| "on_event (RuntimeDestroyed sd) c = mark_destroyed sd c"

definition run :: "event list \<Rightarrow> conn \<Rightarrow> conn" where
  "run evs c = foldl (\<lambda>s e. on_event e s) c evs"

definition fires_listener :: "event \<Rightarrow> bool" where
  "fires_listener e = (case e of RuntimeDestroyed sd \<Rightarrow> False | _ \<Rightarrow> True)"

subsection \<open>handleDirectConnect\<close>

text \<open>
  The synchronous part: a new socket with the dial timeout, the connect started, the
  \<open>error\<close> listener registered.
\<close>

definition handleDirectConnect :: "server \<Rightarrow> string \<Rightarrow> nat \<Rightarrow> conn \<Rightarrow> conn" where
  "handleDirectConnect srv h targetPort c =
     c\<lparr>outbound_destroyed := False, outbound_timeout := Some (srv_timeout srv),
       dialing := Some (Direct h targetPort), dial_error_listener := True\<rparr>"

text \<open>The success response, as the direct path writes it: six calls of \<open>write\<close>.\<close>

definition established_lines :: "string list" where
  "established_lines =
     [''HTTP/1.1 200 Connection Established'' @ CRLF,
      ''Proxy-agent: HTTPS-Proxy/1.0'' @ CRLF,
      ''Connection: keep-alive'' @ CRLF,
      ''Keep-Alive: timeout=60, max=1000'' @ CRLF,
      ''Proxy-Connection: keep-alive'' @ CRLF,
      CRLF]"

text \<open>
  The callback of \<open>serverSocket.connect\<close>, with \<open>head\<close> from the closure: the
  response, 120 s on both sockets, \<open>head\<close> to the outbound socket,
  \<open>setupSocketErrorHandlers\<close>, then the two pipes. The \<open>catch\<close> blocks around
  the writes and the socket options have no branch here: \<open>write\<close> and the setters
  report a failure through a callback or an \<open>error\<close> event, they do not throw.
\<close>

definition direct_on_connect :: "server \<Rightarrow> string \<Rightarrow> nat \<Rightarrow> string \<Rightarrow> conn \<Rightarrow> conn" where
  "direct_on_connect srv h targetPort head c =
     (if client_destroyed c then destroy Outbound c
      else
        (let c1 = emit (map (\<lambda>l. Write Client (Bytes l)) established_lines) c;
             c2 = set_timeouts 120000 c1;
             c3 = (if head \<noteq> [] then sock_write Outbound head c2 else c2);
             c4 = setupSocketErrorHandlers srv h targetPort c3
         in emit [Pipe Outbound, Pipe Client] c4))"

subsection \<open>handleConnectViaProxy\<close>

text \<open>
  The synchronous part: no agent gives 502 at once; otherwise a CONNECT request to
  the upstream is started with the configured timeout. Its listeners are on the
  request object, not on a socket.
\<close>

definition handleConnectViaProxy ::
  "(string \<Rightarrow> whatwg_url option) \<Rightarrow> server \<Rightarrow> string \<Rightarrow> nat \<Rightarrow> conn \<Rightarrow> conn" where
  "handleConnectViaProxy URL_new srv h targetPort c =
     (case createProxyAgent URL_new srv (''https://'' @ h @ '':'' @ decimal targetPort) True of
        None \<Rightarrow> sendConnectError ''502 Bad Gateway'' NoProxyAgent c
      | Some proxyAgent \<Rightarrow>
          c\<lparr>dialing := Some (ViaProxy proxyAgent h targetPort (srv_timeout srv))\<rparr>)"

text \<open>The success response, as the upstream path writes it: one string.\<close>

definition established_response :: string where
  "established_response =
     ''HTTP/1.1 200 Connection Established'' @ CRLF @
     ''Proxy-agent: HTTPS-Proxy/1.0'' @ CRLF @
     ''Connection: keep-alive'' @ CRLF @
     ''Keep-Alive: timeout=60, max=1000'' @ CRLF @
     ''Proxy-Connection: keep-alive'' @ CRLF @
     CRLF"

text \<open>
  The listener of the request's \<open>connect\<close> event, up to \<open>process.nextTick\<close>:
  \<open>proxySocket\<close> is the outbound socket, \<open>proxyHead\<close> what was read past the
  upstream's answer.
\<close>

definition proxy_on_connect ::
  "server \<Rightarrow> string \<Rightarrow> nat \<Rightarrow> string \<Rightarrow> string \<Rightarrow> conn \<Rightarrow> conn" where
  "proxy_on_connect srv h targetPort head proxyHead c =
     (if client_destroyed c then destroy Outbound c
      else
        (let c1 = set_timeouts 120000 c;
             c2 = sock_write Client established_response c1;
             c3 = (if head \<noteq> [] then sock_write Outbound head c2 else c2);
             c4 = (if proxyHead \<noteq> [] then sock_write Client proxyHead c3 else c3)
         in setupSocketErrorHandlers srv h targetPort c4))"

text \<open>The callback of that \<open>socket.write\<close>: an error destroys the outbound socket.\<close>

definition proxy_write_callback :: "bool \<Rightarrow> conn \<Rightarrow> conn" where
  "proxy_write_callback err c = (if err then destroy Outbound c else c)"

text \<open>The function given to \<open>process.nextTick\<close>: the pipes, unless a socket is gone.\<close>

definition proxy_next_tick :: "conn \<Rightarrow> conn" where
  "proxy_next_tick c =
     (if client_destroyed c \<or> outbound_destroyed c then c
      else emit [Pipe Outbound, Pipe Client] c)"

text \<open>The request's \<open>error\<close> and \<open>timeout\<close> listeners.\<close>

definition proxy_on_error :: "string \<Rightarrow> conn \<Rightarrow> conn" where
  "proxy_on_error m c = sendConnectError ''502 Bad Gateway'' (ProxyFailed m) c"

definition proxy_on_timeout :: "conn \<Rightarrow> conn" where
  "proxy_on_timeout c = sendConnectError ''504 Gateway Timeout'' ProxyTimeout (emit [AbortRequest] c)"

subsection \<open>handleConnect\<close>

text \<open>
  \<open>client_open\<close> is \<open>socket.readyState === 'open'\<close>. After the checks the client
  socket gets a 60 s timeout and the request goes to one of the two paths.
\<close>

definition handleConnect ::
  "(string \<Rightarrow> legacy_url) \<Rightarrow> (string \<Rightarrow> whatwg_url option) \<Rightarrow> server
     \<Rightarrow> string option \<Rightarrow> bool \<Rightarrow> conn \<Rightarrow> conn" where
  "handleConnect url_parse URL_new srv url client_open c =
     (case validate_target url_parse url of
        Inl message \<Rightarrow> sendConnectError ''400 Bad Request'' message c
      | Inr (h, targetPort) \<Rightarrow>
          if client_destroyed c \<or> \<not> client_open
          then sendConnectError ''400 Bad Request'' ClientState c
          else
            (let c1 = c\<lparr>client_timeout := Some 60000\<rparr> in
             case upstreamProxy srv of
               None \<Rightarrow> handleDirectConnect srv h targetPort c1
             | Some up \<Rightarrow>
                 if up = [] then handleDirectConnect srv h targetPort c1
                 else handleConnectViaProxy URL_new srv h targetPort c1))"

section \<open>Observing a run\<close>

text \<open>The header names that \<open>handleHttpRequest\<close> deletes, as a list.\<close>

definition stripped_headers :: "string list" where
  "stripped_headers =
     [''host'', ''proxy-connection'', ''proxy-authorization'', ''connection'', ''upgrade'',
      ''sec-websocket-key'', ''sec-websocket-version'', ''sec-websocket-protocol'']"

text \<open>The headers of the outbound request, none when the request was answered locally.\<close>

fun sent_headers :: "outcome \<Rightarrow> (string \<rightharpoonup> string)" where
  "sent_headers (Fetch f) = f_headers f"
| "sent_headers (Respond status hs b) = Map.empty"

text \<open>Host and port of a parsed URL, the port left out when its field is empty.\<close>

definition authority :: "whatwg_url \<Rightarrow> string" where
  "authority u = hostname u @ (if port u = [] then [] else '':'' @ port u)"

text \<open>The calls made on the sockets between an earlier state and a later one.\<close>

definition since :: "conn \<Rightarrow> conn \<Rightarrow> action list" where
  "since c c' = drop (length (trace c)) (trace c')"

text \<open>What was written to one socket, in order.\<close>

fun sent_to :: "side \<Rightarrow> action list \<Rightarrow> payload list" where
  "sent_to sd [] = []"
| "sent_to sd (Write sd' p # acts) = (if sd' = sd then p # sent_to sd acts else sent_to sd acts)"
| "sent_to sd (a # acts) = sent_to sd acts"

text \<open>The bytes of a sequence of writes, when all of them are byte strings.\<close>

fun wire_bytes :: "payload list \<Rightarrow> string option" where
  "wire_bytes [] = Some []"
| "wire_bytes (Bytes d # ps) = map_option ((@) d) (wire_bytes ps)"
| "wire_bytes (Message m # ps) = None"

text \<open>
  Splicing is the two \<open>pipe\<close> calls: from then on what one socket receives is written
  to the other.
\<close>

definition is_pipe :: "action \<Rightarrow> bool" where
  "is_pipe a = (case a of Pipe sd \<Rightarrow> True | _ \<Rightarrow> False)"

text \<open>
  \<open>comes_before_pipes a acts\<close>: \<open>a\<close> is among the calls, and no pipe is installed
  before its first occurrence.
\<close>

fun comes_before_pipes :: "action \<Rightarrow> action list \<Rightarrow> bool" where
  "comes_before_pipes a [] = False"
| "comes_before_pipes a (x # xs) =
     (if x = a then True else if is_pipe x then False else comes_before_pipes a xs)"

text \<open>
  The calls that take a connection down, and the four ways \<open>cleanup\<close> can make them:
  each socket is unpiped and then destroyed, the client's first, and a socket already
  destroyed is skipped.
\<close>

definition teardown :: "action list \<Rightarrow> action list" where
  "teardown acts = filter (\<lambda>a. case a of Unpipe sd \<Rightarrow> True | Destroy sd \<Rightarrow> True | _ \<Rightarrow> False) acts"

definition teardowns :: "action list set" where
  "teardowns =
     {[], [Unpipe Client, Destroy Client], [Unpipe Outbound, Destroy Outbound],
      [Unpipe Client, Destroy Client, Unpipe Outbound, Destroy Outbound]}"

text \<open>Both sockets destroyed, with the flag of \<open>cleanup\<close> set.\<close>

definition closed_down :: "conn \<Rightarrow> bool" where
  "closed_down s = (splice_listeners s \<and> connectionClosed s \<and> client_destroyed s \<and> outbound_destroyed s)"

text \<open>The calls made before the first occurrence of \<open>a\<close>.\<close>

definition calls_before :: "action \<Rightarrow> action list \<Rightarrow> action list" where
  "calls_before a acts = takeWhile (\<lambda>x. x \<noteq> a) acts"

text \<open>
  The success response in the specification's words, with the agent's name and version
  open.
\<close>

definition spec_connect_established :: "string \<Rightarrow> string \<Rightarrow> string" where
  "spec_connect_established name version =
     ''HTTP/1.1 200 Connection Established'' @ [CHR 0x0D, CHR 0x0A] @
     ''Proxy-agent: '' @ name @ ''/'' @ version @ [CHR 0x0D, CHR 0x0A] @
     ''Connection: keep-alive'' @ [CHR 0x0D, CHR 0x0A] @
     ''Keep-Alive: timeout=60, max=1000'' @ [CHR 0x0D, CHR 0x0A] @
     ''Proxy-Connection: keep-alive'' @ [CHR 0x0D, CHR 0x0A] @
     [CHR 0x0D, CHR 0x0A]"

section \<open>Example inputs\<close>

text \<open>
  What \<open>new URL\<close> returns for the URLs used in the examples below (and an exception,
  \<open>None\<close>, for any other string).
\<close>

definition URL_examples :: "string \<Rightarrow> whatwg_url option" where
  "URL_examples =
     map_of
       [(''http://origin.test/ping'',
           \<lparr>protocol = ''http:'', hostname = ''origin.test'', port = [],
            pathname = ''/ping'', search = []\<rparr>),
        (''ftp://host/'',
           \<lparr>protocol = ''ftp:'', hostname = ''host'', port = [],
            pathname = ''/'', search = []\<rparr>),
        (''ftp://up.test:2121'',
           \<lparr>protocol = ''ftp:'', hostname = ''up.test'', port = ''2121'',
            pathname = ''/'', search = []\<rparr>),
        (''http://up.test:8080'',
           \<lparr>protocol = ''http:'', hostname = ''up.test'', port = ''8080'',
            pathname = ''/'', search = []\<rparr>)]"

text \<open>
  What \<open>url.parse\<close> returns for the strings the examples below hand to it. For
  \<open>'//' + target\<close> with neither a colon nor an \<open>@\<close> in the target it reads the
  whole string as a path (its third argument is not given) and leaves host name and
  port \<open>null\<close>. An \<open>@\<close> makes it read the two slashes as the start of an
  authority: for \<open>//user@example.test\<close> the host name is \<open>example.test\<close>, the
  port \<open>null\<close>.
\<close>

definition url_parse_examples :: "string \<Rightarrow> legacy_url" where
  "url_parse_examples s =
     (if s = ''//user@example.test''
      then \<lparr>lu_hostname = Some ''example.test'', lu_port = None\<rparr>
      else \<lparr>lu_hostname = None, lu_port = None\<rparr>)"

text \<open>The server built with no option and no proxy variable in the environment.\<close>

definition default_server :: server where
  "default_server = new_HttpsProxy \<lparr>opt_port = None, opt_timeout = None\<rparr> []"

text \<open>A server that found an upstream URL with a protocol it does not know.\<close>

definition ftp_upstream_server :: server where
  "ftp_upstream_server =
     new_HttpsProxy \<lparr>opt_port = None, opt_timeout = None\<rparr>
       [None, None, Some ''ftp://up.test:2121'']"

definition websocket_request :: request where
  "websocket_request =
     \<lparr>req_method = Some ''GET'', req_url = Some ''http://origin.test/ping'',
      req_headers = [''host'' \<mapsto> ''proxy'', ''proxy-connection'' \<mapsto> ''keep-alive'',
                     ''sec-websocket-key'' \<mapsto> ''abc'',
                     ''sec-websocket-extensions'' \<mapsto> ''permessage-deflate'']\<rparr>"

definition ftp_request :: request where
  "ftp_request =
     \<lparr>req_method = Some ''GET'', req_url = Some ''ftp://host/'',
      req_headers = [''host'' \<mapsto> ''proxy'']\<rparr>"

definition options_request :: request where
  "options_request =
     \<lparr>req_method = Some ''OPTIONS'', req_url = Some ''http://origin.test/ping'',
      req_headers = [''host'' \<mapsto> ''proxy'']\<rparr>"

text \<open>A server with an HTTP upstream.\<close>

definition http_upstream_server :: server where
  "http_upstream_server =
     new_HttpsProxy \<lparr>opt_port = None, opt_timeout = None\<rparr>
       [None, None, Some ''http://up.test:8080'']"

text \<open>
  A fresh connection after \<open>handleConnect\<close>, and three tunnels: two direct ones to
  ports 443 and 8080, and one through the HTTP upstream, each with five bytes read
  past the request (and five past the upstream's answer).
\<close>

definition requested :: "server \<Rightarrow> string \<Rightarrow> conn" where
  "requested srv target =
     handleConnect url_parse_examples URL_examples srv (Some target) True accepted"

definition tunnel_443 :: conn where
  "tunnel_443 =
     direct_on_connect default_server ''example.test'' 443 ''hello''
       (requested default_server ''example.test:443'')"

definition tunnel_8080 :: conn where
  "tunnel_8080 =
     direct_on_connect default_server ''example.test'' 8080 ''hello''
       (requested default_server ''example.test:8080'')"

definition proxied_tunnel :: conn where
  "proxied_tunnel =
     proxy_next_tick (proxy_write_callback False
       (proxy_on_connect http_upstream_server ''example.test'' 443 ''hello'' ''early''
          (requested http_upstream_server ''example.test:443'')))"

section \<open>The request listener and forward fetch\<close>

text \<open>
  Claim C10. Every request whose method is \<open>OPTIONS\<close>, whatever its target (an
  absolute URI included), is answered by the listener itself with status 200 and the
  three permissive CORS headers; \<open>handleHttpRequest\<close> is not reached, so nothing is
  forwarded, although \<open>OPTIONS\<close> is one of the methods \<open>handleHttpRequest\<close> would
  accept.
\<close>

theorem options_answered_locally:
  "req_method req = Some ''OPTIONS'' \<Longrightarrow>
     requestListener URL_new srv req =
       ([(''Access-Control-Allow-Origin'', ''*''),
         (''Access-Control-Allow-Methods'', ''*''),
         (''Access-Control-Allow-Headers'', ''*'')],
        Respond 200 [] NoBody)
     \<and> ''OPTIONS'' \<in> set validMethods"
  by (simp add: requestListener_def cors_headers_def validMethods_def)

theorem options_answered_locally_witness:
  "requestListener URL_examples default_server options_request =
       ([(''Access-Control-Allow-Origin'', ''*''),
         (''Access-Control-Allow-Methods'', ''*''),
         (''Access-Control-Allow-Headers'', ''*'')],
        Respond 200 [] NoBody)"
  using options_answered_locally [of options_request URL_examples default_server]
  by (simp add: options_request_def)

text \<open>What a request that is forwarded looked like.\<close>

lemma handleHttpRequest_Fetch:
  assumes "handleHttpRequest URL_new srv req = Fetch f"
  shows "\<exists>targetUrl meth parsedUrl.
           req_url req = Some targetUrl \<and> req_method req = Some meth
         \<and> meth \<in> set validMethods
         \<and> (startsWith targetUrl ''http://'' \<or> startsWith targetUrl ''https://'')
         \<and> URL_new targetUrl = Some parsedUrl
         \<and> (protocol parsedUrl = ''http:'' \<or> protocol parsedUrl = ''https:'')
         \<and> f = forward URL_new srv meth targetUrl (req_headers req) parsedUrl"
  using assms
  by (auto simp: handleHttpRequest_def split: option.splits if_splits)

lemma websocket_request_fetched:
  "handleHttpRequest URL_examples default_server websocket_request =
     Fetch (forward URL_examples default_server ''GET'' ''http://origin.test/ping''
              (req_headers websocket_request)
              \<lparr>protocol = ''http:'', hostname = ''origin.test'', port = [],
               pathname = ''/ping'', search = []\<rparr>)"
  by (simp add: handleHttpRequest_def websocket_request_def validMethods_def startsWith_def
      URL_examples_def)

text \<open>
  What the handler does with a target that does not begin with \<open>http://\<close> or
  \<open>https://\<close> (\<open>ftp://host/\<close>, say): it is never fetched; when its method is an
  accepted one, the answer is 400 only if the \<open>Host\<close> header is missing, empty,
  longer than 255 or holds a control or high-bit character, and the 200 status page
  otherwise. Whatever is fetched had a target with such a prefix that parsed to the
  protocol \<open>http:\<close> or \<open>https:\<close>.
\<close>

theorem non_http_target_never_fetched:
  "(handleHttpRequest URL_new srv req = Fetch f \<longrightarrow>
      (\<exists>targetUrl parsedUrl.
          req_url req = Some targetUrl
        \<and> (startsWith targetUrl ''http://'' \<or> startsWith targetUrl ''https://'')
        \<and> URL_new targetUrl = Some parsedUrl
        \<and> (protocol parsedUrl = ''http:'' \<or> protocol parsedUrl = ''https:'')))
   \<and> (req_url req = Some targetUrl \<and> targetUrl \<noteq> []
        \<and> req_method req = Some meth \<and> meth \<in> set validMethods
        \<and> \<not> startsWith targetUrl ''http://'' \<and> \<not> startsWith targetUrl ''https://'' \<longrightarrow>
        handleHttpRequest URL_new srv req =
          (if suspicious_host (req_headers req ''host'')
           then Respond 400 text_plain UseConnectText
           else Respond 200 text_html (StatusPage (srv_port srv))))"
proof -
  have "\<exists>targetUrl parsedUrl.
          req_url req = Some targetUrl
        \<and> (startsWith targetUrl ''http://'' \<or> startsWith targetUrl ''https://'')
        \<and> URL_new targetUrl = Some parsedUrl
        \<and> (protocol parsedUrl = ''http:'' \<or> protocol parsedUrl = ''https:'')"
    if "handleHttpRequest URL_new srv req = Fetch f"
    using handleHttpRequest_Fetch [OF that] by blast
  moreover have "handleHttpRequest URL_new srv req =
          (if suspicious_host (req_headers req ''host'')
           then Respond 400 text_plain UseConnectText
           else Respond 200 text_html (StatusPage (srv_port srv)))"
    if "req_url req = Some targetUrl" "targetUrl \<noteq> []"
       "req_method req = Some meth" "meth \<in> set validMethods"
       "\<not> startsWith targetUrl ''http://''" "\<not> startsWith targetUrl ''https://''"
    using that by (simp add: handleHttpRequest_def)
  ultimately show ?thesis by blast
qed

theorem non_http_target_never_fetched_witness:
  "handleHttpRequest URL_examples default_server ftp_request
     = Respond 200 text_html (StatusPage 10443)
   \<and> (\<exists>targetUrl parsedUrl.
          req_url websocket_request = Some targetUrl
        \<and> (startsWith targetUrl ''http://'' \<or> startsWith targetUrl ''https://'')
        \<and> URL_examples targetUrl = Some parsedUrl
        \<and> (protocol parsedUrl = ''http:'' \<or> protocol parsedUrl = ''https:''))"
proof -
  have "handleHttpRequest URL_examples default_server ftp_request
     = Respond 200 text_html (StatusPage 10443)"
    using non_http_target_never_fetched
      [of URL_examples default_server ftp_request undefined "''ftp://host/''" "''GET''"]
    by (simp add: ftp_request_def validMethods_def startsWith_def suspicious_host_def
        control_or_high_def default_server_def new_HttpsProxy_def nat_or_else_def)
  moreover have "\<exists>targetUrl parsedUrl.
          req_url websocket_request = Some targetUrl
        \<and> (startsWith targetUrl ''http://'' \<or> startsWith targetUrl ''https://'')
        \<and> URL_examples targetUrl = Some parsedUrl
        \<and> (protocol parsedUrl = ''http:'' \<or> protocol parsedUrl = ''https:'')"
    using non_http_target_never_fetched
      [of URL_examples default_server websocket_request _ "[]" "[]"] websocket_request_fetched
    by blast
  ultimately show ?thesis by blast
qed

text \<open>
  The check of the parsed protocol, which answers 400 for anything but \<open>http:\<close> and
  \<open>https:\<close>, comes after the prefix test: it is reached only by a target that begins
  with \<open>http://\<close> or \<open>https://\<close>.
\<close>

lemma protocol_check_answers_400:
  assumes "req_url req = Some targetUrl" and "req_method req = Some meth"
      and "meth \<in> set validMethods"
      and "startsWith targetUrl ''http://'' \<or> startsWith targetUrl ''https://''"
      and "URL_new targetUrl = Some parsedUrl"
      and "protocol parsedUrl \<noteq> ''http:''" and "protocol parsedUrl \<noteq> ''https:''"
  shows "handleHttpRequest URL_new srv req
           = Respond 400 text_plain (UnsupportedProtocolText (protocol parsedUrl))"
proof -
  from assms(4) have "targetUrl \<noteq> []"
    by (auto simp: startsWith_def)
  with assms show ?thesis
    by (simp add: handleHttpRequest_def)
qed

text \<open>
  Claim C9 fails on the code. The request \<open>GET ftp://host/\<close> with an ordinary
  \<open>Host\<close> header is not fetched, but it is not answered 400 either: the prefix
  test sends it to the branch for requests that are not proxy requests, and the answer
  is the status page, with status 200.
\<close>

theorem ftp_target_gets_status_page:
  "handleHttpRequest URL_examples default_server ftp_request
     = Respond 200 [(''Content-Type'', ''text/html; charset=utf-8'')] (StatusPage 10443)"
  by (simp add: handleHttpRequest_def ftp_request_def validMethods_def startsWith_def
      suspicious_host_def control_or_high_def default_server_def new_HttpsProxy_def
      nat_or_else_def text_html_def)

lemma strip_headers_removed:
  "k \<in> set stripped_headers \<Longrightarrow> strip_headers hs k = None"
  by (auto simp: stripped_headers_def strip_headers_def)

lemma strip_headers_kept:
  "k \<notin> set stripped_headers \<Longrightarrow> strip_headers hs k = hs k"
  by (auto simp: stripped_headers_def strip_headers_def)

lemma set_host_host:
  "hostname u \<noteq> [] \<Longrightarrow> set_host b u hs ''host'' = Some (authority u)"
  by (auto simp: set_host_def authority_def)

lemma set_host_other:
  "k \<noteq> ''host'' \<Longrightarrow> set_host b u hs k = hs k"
  by (auto simp: set_host_def)

text \<open>
  Claim C5, as the program has it. The outbound request of a forward fetch carries none
  of the inbound headers \<open>proxy-connection\<close>, \<open>proxy-authorization\<close>, \<open>connection\<close>,
  \<open>upgrade\<close>, \<open>sec-websocket-key\<close>, \<open>sec-websocket-version\<close> and
  \<open>sec-websocket-protocol\<close>; its \<open>host\<close> is not the inbound one but the host name of
  the parsed target, followed by a colon and the port when the parser reports one (it
  reports none for the protocol's default port); every other inbound header, the
  remaining \<open>sec-websocket-*\<close> ones included, is copied unchanged.
\<close>

theorem forward_fetch_headers:
  assumes "handleHttpRequest URL_new srv req = Fetch f"
  shows "\<exists>targetUrl parsedUrl.
           req_url req = Some targetUrl \<and> URL_new targetUrl = Some parsedUrl
         \<and> f_headers f ''host'' =
             (if hostname parsedUrl = [] then None else Some (authority parsedUrl))
         \<and> (\<forall>k \<in> set stripped_headers. k \<noteq> ''host'' \<longrightarrow> f_headers f k = None)
         \<and> (\<forall>k. k \<notin> set stripped_headers \<longrightarrow> f_headers f k = req_headers req k)"
proof -
  from handleHttpRequest_Fetch [OF assms] obtain targetUrl meth parsedUrl where
    u: "req_url req = Some targetUrl" "URL_new targetUrl = Some parsedUrl" and
    f: "f = forward URL_new srv meth targetUrl (req_headers req) parsedUrl"
    by blast
  let ?https = "protocol parsedUrl = ''https:''"
  have h: "f_headers f = set_host ?https parsedUrl (strip_headers (req_headers req))"
    by (simp add: f forward_def Let_def)
  have host: "f_headers f ''host'' =
             (if hostname parsedUrl = [] then None else Some (authority parsedUrl))"
  proof (cases "hostname parsedUrl = []")
    case True
    then show ?thesis
      by (simp add: h set_host_def strip_headers_removed stripped_headers_def)
  next
    case False
    then show ?thesis by (simp add: h set_host_host)
  qed
  have gone: "f_headers f k = None" if "k \<in> set stripped_headers" "k \<noteq> ''host''" for k
    using that by (simp add: h set_host_other strip_headers_removed)
  have kept: "f_headers f k = req_headers req k" if "k \<notin> set stripped_headers" for k
  proof -
    from that have "k \<noteq> ''host''" by (auto simp: stripped_headers_def)
    with that show ?thesis by (simp add: h set_host_other strip_headers_kept)
  qed
  from u host gone kept show ?thesis by blast
qed

theorem forward_fetch_headers_witness:
  "sent_headers (handleHttpRequest URL_examples default_server websocket_request) ''host''
     = Some ''origin.test''
   \<and> sent_headers (handleHttpRequest URL_examples default_server websocket_request)
       ''proxy-connection'' = None
   \<and> sent_headers (handleHttpRequest URL_examples default_server websocket_request)
       ''sec-websocket-key'' = None"
proof -
  let ?f = "forward URL_examples default_server ''GET'' ''http://origin.test/ping''
              (req_headers websocket_request)
              \<lparr>protocol = ''http:'', hostname = ''origin.test'', port = [],
               pathname = ''/ping'', search = []\<rparr>"
  from forward_fetch_headers [OF websocket_request_fetched] obtain targetUrl parsedUrl where
    u: "req_url websocket_request = Some targetUrl" "URL_examples targetUrl = Some parsedUrl" and
    host: "f_headers ?f ''host'' =
             (if hostname parsedUrl = [] then None else Some (authority parsedUrl))" and
    gone: "\<forall>k \<in> set stripped_headers. k \<noteq> ''host'' \<longrightarrow> f_headers ?f k = None"
    by blast
  from u have "parsedUrl = \<lparr>protocol = ''http:'', hostname = ''origin.test'', port = [],
               pathname = ''/ping'', search = []\<rparr>"
    by (simp add: websocket_request_def URL_examples_def)
  with host have "f_headers ?f ''host'' = Some ''origin.test''"
    by (simp add: authority_def)
  moreover from gone have "f_headers ?f ''proxy-connection'' = None"
    by (simp add: stripped_headers_def)
  moreover from gone have "f_headers ?f ''sec-websocket-key'' = None"
    by (simp add: stripped_headers_def)
  ultimately show ?thesis unfolding websocket_request_fetched by simp
qed

text \<open>
  The claim as written names every \<open>sec-websocket-*\<close> header: an inbound
  \<open>sec-websocket-extensions\<close> is in the outbound request as it came.
\<close>

theorem sec_websocket_extensions_forwarded:
  "sent_headers (handleHttpRequest URL_examples default_server websocket_request)
     ''sec-websocket-extensions'' = Some ''permessage-deflate''"
  unfolding websocket_request_fetched
  by (simp add: forward_def Let_def set_host_def strip_headers_def websocket_request_def)

section \<open>CONNECT: the target and the upstream\<close>

text \<open>The definitions that a run of \<open>handleConnect\<close> on a concrete target unfolds.\<close>

lemmas eval_defs = handleConnect_def validate_target_def parse_target_def parseInt_def
  js_whitespace_def is_digit_def digits_value_def hostname_pattern_def hostname_char_def
  or_else_def url_parse_examples_def sendConnectError_def emit_def accepted_def
  default_server_def ftp_upstream_server_def new_HttpsProxy_def nat_or_else_def js_trim_def
  handleDirectConnect_def handleConnectViaProxy_def createProxyAgent_def URL_examples_def
  since_def Let_def

text \<open>How \<open>split\<close> cuts a target at its colons.\<close>

lemma split_colon_no_colon:
  "CHR '':'' \<notin> set h \<Longrightarrow> split_colon h = [h]"
  by (induction h) auto










lemma sendConnectError_dialing: "dialing (sendConnectError st r c) = dialing c"
  by (simp add: sendConnectError_def emit_def)

lemma since_sendConnectError:
  "\<not> client_destroyed c \<Longrightarrow> since c (sendConnectError st r c) =
     [Write Client (Bytes (''HTTP/1.1 '' @ st @ CRLF)),
      Write Client (Bytes (''Content-Type: text/plain'' @ CRLF)),
      Write Client (Bytes CRLF),
      Write Client (Message r),
      EndStream Client]"
  by (simp add: sendConnectError_def emit_def since_def)






text \<open>An upstream URL whose protocol is none of the four gives no agent.\<close>

lemma createProxyAgent_unknown:
  assumes "upstreamProxy srv = Some up" and "URL_new up = Some pu"
      and "protocol pu \<notin> {''http:'', ''https:'', ''socks4:'', ''socks5:''}"
  shows "createProxyAgent URL_new srv targetUrl isConnect = None"
  using assms by (simp add: createProxyAgent_def)

lemma createProxyAgent_none:
  "createProxyAgent URL_new (srv\<lparr>upstreamProxy := None\<rparr>) targetUrl isConnect = None"
  by (simp add: createProxyAgent_def)

text \<open>
  Claim C6, as the program has it. When the upstream URL parses to a protocol other
  than \<open>http:\<close>, \<open>https:\<close>, \<open>socks4:\<close> and \<open>socks5:\<close>, \<open>createProxyAgent\<close>
  gives no agent, and a forward fetch is handled exactly as with no upstream
  configured. A CONNECT request never starts a dial. One whose target fails validation,
  or whose client socket is destroyed or not open, is answered as with no upstream
  configured (400, when the socket is not destroyed). One with a valid target on an
  open client socket is not: \<open>handleConnect\<close> still takes the upstream path, and
  \<open>handleConnectViaProxy\<close>, with no agent, answers \<open>502 Bad Gateway\<close>.
\<close>

theorem unknown_upstream_scheme:
  assumes "upstreamProxy srv = Some up" and "up \<noteq> []" and "URL_new up = Some pu"
      and "protocol pu \<notin> {''http:'', ''https:'', ''socks4:'', ''socks5:''}"
  shows "createProxyAgent URL_new srv targetUrl isConnect = None
       \<and> handleHttpRequest URL_new srv req
           = handleHttpRequest URL_new (srv\<lparr>upstreamProxy := None\<rparr>) req
       \<and> (validate_target url_parse url = Inr (h, p) \<and> \<not> client_destroyed c \<and> client_open \<longrightarrow>
            handleConnect url_parse URL_new srv url client_open c
              = sendConnectError ''502 Bad Gateway'' NoProxyAgent (c\<lparr>client_timeout := Some 60000\<rparr>)
            \<and> dialing (handleConnect url_parse URL_new srv url client_open c) = dialing c
            \<and> since c (handleConnect url_parse URL_new srv url client_open c) =
                 [Write Client (Bytes (''HTTP/1.1 502 Bad Gateway'' @ CRLF)),
                  Write Client (Bytes (''Content-Type: text/plain'' @ CRLF)),
                  Write Client (Bytes CRLF),
                  Write Client (Message NoProxyAgent),
                  EndStream Client])
       \<and> dialing (handleConnect url_parse URL_new srv url client_open c) = dialing c
       \<and> (isl (validate_target url_parse url) \<or> client_destroyed c \<or> \<not> client_open \<longrightarrow>
            handleConnect url_parse URL_new srv url client_open c
              = handleConnect url_parse URL_new (srv\<lparr>upstreamProxy := None\<rparr>) url
                  client_open c)"
proof -
  have agent: "createProxyAgent URL_new srv t b = None" for t b
    using assms createProxyAgent_unknown by blast
  have fetch: "handleHttpRequest URL_new srv req
           = handleHttpRequest URL_new (srv\<lparr>upstreamProxy := None\<rparr>) req"
    by (simp add: handleHttpRequest_def forward_def agent createProxyAgent_none
        split: option.splits)
  have tunnel: "handleConnect url_parse URL_new srv url client_open c
              = sendConnectError ''502 Bad Gateway'' NoProxyAgent (c\<lparr>client_timeout := Some 60000\<rparr>)"
    if "validate_target url_parse url = Inr (h, p)" "\<not> client_destroyed c" "client_open"
    using that assms(1,2) by (simp add: handleConnect_def handleConnectViaProxy_def agent)
  have "dialing (sendConnectError ''502 Bad Gateway'' NoProxyAgent (c\<lparr>client_timeout := Some 60000\<rparr>))
          = dialing c"
    by (simp add: sendConnectError_dialing)
  moreover have "since c (sendConnectError ''502 Bad Gateway'' NoProxyAgent (c\<lparr>client_timeout := Some 60000\<rparr>)) =
                 [Write Client (Bytes (''HTTP/1.1 502 Bad Gateway'' @ CRLF)),
                  Write Client (Bytes (''Content-Type: text/plain'' @ CRLF)),
                  Write Client (Bytes CRLF),
                  Write Client (Message NoProxyAgent),
                  EndStream Client]" if "\<not> client_destroyed c"
    using that by (simp add: sendConnectError_def emit_def since_def)
  ultimately have answered:
    "validate_target url_parse url = Inr (h, p) \<and> \<not> client_destroyed c \<and> client_open \<longrightarrow>
            handleConnect url_parse URL_new srv url client_open c
              = sendConnectError ''502 Bad Gateway'' NoProxyAgent (c\<lparr>client_timeout := Some 60000\<rparr>)
            \<and> dialing (handleConnect url_parse URL_new srv url client_open c) = dialing c
            \<and> since c (handleConnect url_parse URL_new srv url client_open c) =
                 [Write Client (Bytes (''HTTP/1.1 502 Bad Gateway'' @ CRLF)),
                  Write Client (Bytes (''Content-Type: text/plain'' @ CRLF)),
                  Write Client (Bytes CRLF),
                  Write Client (Message NoProxyAgent),
                  EndStream Client]"
    using tunnel by simp
  have early: "handleConnect url_parse URL_new srv' url client_open c
                 = sendConnectError ''400 Bad Request''
                     (case validate_target url_parse url of Inl m \<Rightarrow> m | Inr hp \<Rightarrow> ClientState) c"
    if "isl (validate_target url_parse url) \<or> client_destroyed c \<or> \<not> client_open" for srv'
    using that
    by (cases "validate_target url_parse url") (auto simp: handleConnect_def)
  have same: "handleConnect url_parse URL_new srv url client_open c
              = handleConnect url_parse URL_new (srv\<lparr>upstreamProxy := None\<rparr>) url client_open c"
    if "isl (validate_target url_parse url) \<or> client_destroyed c \<or> \<not> client_open"
    using early [OF that, of srv] early [OF that, of "srv\<lparr>upstreamProxy := None\<rparr>"]
    by simp
  have never: "dialing (handleConnect url_parse URL_new srv url client_open c) = dialing c"
  proof (cases "isl (validate_target url_parse url) \<or> client_destroyed c \<or> \<not> client_open")
    case True
    from early [OF True, of srv] show ?thesis
      by (simp add: sendConnectError_dialing)
  next
    case False
    then obtain h' p' where "validate_target url_parse url = Inr (h', p')"
      by (cases "validate_target url_parse url") auto
    with False assms(1,2) show ?thesis
      by (simp add: handleConnect_def handleConnectViaProxy_def agent sendConnectError_dialing)
  qed
  from agent fetch answered never same show ?thesis by blast
qed

text \<open>
  The claim as written has the tunnel go direct: with the upstream \<open>ftp://up.test:2121\<close>
  the request \<open>CONNECT example.test:443\<close> gets 502 and no dial, while with no upstream
  it starts the direct dial.
\<close>

theorem unknown_scheme_connect_refused:
  "dialing (handleConnect url_parse_examples URL_examples ftp_upstream_server
              (Some ''example.test:443'') True accepted) = None
   \<and> sent_to Client (trace (handleConnect url_parse_examples URL_examples ftp_upstream_server
              (Some ''example.test:443'') True accepted)) =
       [Bytes (''HTTP/1.1 502 Bad Gateway'' @ CRLF),
        Bytes (''Content-Type: text/plain'' @ CRLF),
        Bytes CRLF,
        Message NoProxyAgent]
   \<and> dialing (handleConnect url_parse_examples URL_examples default_server
              (Some ''example.test:443'') True accepted) = Some (Direct ''example.test'' 443)"
  by (simp add: eval_defs)

theorem unknown_upstream_scheme_witness:
  "createProxyAgent URL_examples ftp_upstream_server ''http://origin.test/ping'' False = None
   \<and> handleHttpRequest URL_examples ftp_upstream_server websocket_request
       = handleHttpRequest URL_examples (ftp_upstream_server\<lparr>upstreamProxy := None\<rparr>) websocket_request
   \<and> dialing (handleConnect url_parse_examples URL_examples ftp_upstream_server
                (Some ''example.test:443'') True accepted) = None
   \<and> handleConnect url_parse_examples URL_examples ftp_upstream_server
         (Some ''example.test:443'') False accepted
       = handleConnect url_parse_examples URL_examples
           (ftp_upstream_server\<lparr>upstreamProxy := None\<rparr>)
           (Some ''example.test:443'') False accepted"
proof -
  have up: "upstreamProxy ftp_upstream_server = Some ''ftp://up.test:2121''"
    by (simp add: eval_defs)
  have pu: "URL_examples ''ftp://up.test:2121'' =
      Some \<lparr>protocol = ''ftp:'', hostname = ''up.test'', port = ''2121'',
            pathname = ''/'', search = []\<rparr>"
    by (simp add: URL_examples_def)
  have ok: "validate_target url_parse_examples (Some ''example.test:443'')
              = Inr (''example.test'', 443)"
    by (simp add: eval_defs)
  have ne: "''ftp://up.test:2121'' \<noteq> []" by simp
  have proto: "protocol \<lparr>protocol = ''ftp:'', hostname = ''up.test'', port = ''2121'',
            pathname = ''/'', search = []\<rparr> \<notin> {''http:'', ''https:'', ''socks4:'', ''socks5:''}"
    by simp
  note inst = unknown_upstream_scheme
     [where srv = ftp_upstream_server and up = "''ftp://up.test:2121''"
        and URL_new = URL_examples
        and pu = "\<lparr>protocol = ''ftp:'', hostname = ''up.test'', port = ''2121'',
            pathname = ''/'', search = []\<rparr>"
        and targetUrl = "''http://origin.test/ping''" and isConnect = False
        and req = websocket_request and url_parse = url_parse_examples
        and url = "Some ''example.test:443''" and h = "''example.test''" and p = 443
        and c = accepted and client_open = True, OF up ne pu proto]
  have nd: "\<not> client_destroyed accepted" and idle: "dialing accepted = None"
    by (simp_all add: accepted_def)
  from inst have agent: "createProxyAgent URL_examples ftp_upstream_server
      ''http://origin.test/ping'' False = None"
    by (rule conjunct1)
  from inst have fetch: "handleHttpRequest URL_examples ftp_upstream_server websocket_request
       = handleHttpRequest URL_examples (ftp_upstream_server\<lparr>upstreamProxy := None\<rparr>)
           websocket_request"
    by blast
  from inst ok nd have "dialing (handleConnect url_parse_examples URL_examples ftp_upstream_server
                (Some ''example.test:443'') True accepted) = dialing accepted"
    by blast
  with idle have tunnel: "dialing (handleConnect url_parse_examples URL_examples
                ftp_upstream_server (Some ''example.test:443'') True accepted) = None"
    by (simp only:)
  note closed = unknown_upstream_scheme
     [where srv = ftp_upstream_server and up = "''ftp://up.test:2121''"
        and URL_new = URL_examples
        and pu = "\<lparr>protocol = ''ftp:'', hostname = ''up.test'', port = ''2121'',
            pathname = ''/'', search = []\<rparr>"
        and targetUrl = "''http://origin.test/ping''" and isConnect = False
        and req = websocket_request and url_parse = url_parse_examples
        and url = "Some ''example.test:443''" and h = "''example.test''" and p = 443
        and c = accepted and client_open = False, OF up ne pu proto]
  have "isl (validate_target url_parse_examples (Some ''example.test:443''))
          \<or> client_destroyed accepted \<or> \<not> False"
    by simp
  with closed [THEN conjunct2, THEN conjunct2, THEN conjunct2, THEN conjunct2]
  have shut: "handleConnect url_parse_examples URL_examples ftp_upstream_server
         (Some ''example.test:443'') False accepted
       = handleConnect url_parse_examples URL_examples
           (ftp_upstream_server\<lparr>upstreamProxy := None\<rparr>)
           (Some ''example.test:443'') False accepted"
    by (rule mp)
  from agent fetch tunnel shut show ?thesis by blast
qed

section \<open>The tunnel\<close>

subsection \<open>Events on a spliced connection\<close>

lemma run_Nil: "run [] s = s"
  by (simp add: run_def)

lemma run_Cons: "run (e # evs) s = run evs (on_event e s)"
  by (simp add: run_def)

lemma run_append: "run (xs @ ys) s = run ys (run xs s)"
  by (simp add: run_def)

lemma run_single: "run [e] s = on_event e s"
  by (simp add: run_def)

lemma mark_destroyed_idem:
  "is_destroyed sd s \<Longrightarrow> mark_destroyed sd s = s"
  by (cases sd) (simp_all add: is_destroyed_def mark_destroyed_def)

lemma cleanup_closed: "connectionClosed s \<Longrightarrow> cleanup s = s"
  by (simp add: cleanup_def)

lemma sendConnectError_gone: "client_destroyed s \<Longrightarrow> sendConnectError st r s = s"
  by (simp add: sendConnectError_def)

lemma on_event_closed_down:
  assumes "closed_down s"
  shows "on_event e s = s"
proof (cases e)
  case (SockError sd m)
  with assms show ?thesis
    by (cases sd) (simp_all add: closed_down_def calls_cleanup_def cleanup_closed sendConnectError_gone)
next
  case (RuntimeDestroyed sd)
  with assms show ?thesis
    by (cases sd) (simp_all add: closed_down_def mark_destroyed_idem is_destroyed_def)
qed (use assms in \<open>simp_all add: closed_down_def calls_cleanup_def cleanup_closed\<close>)

lemma run_closed_down: "closed_down s \<Longrightarrow> run evs s = s"
  by (induction evs) (simp_all add: run_Nil run_Cons on_event_closed_down)

text \<open>Events that fire no listener leave everything but the two \<open>destroyed\<close> flags.\<close>

lemma run_quiet:
  assumes "\<not> list_ex fires_listener evs"
  shows "trace (run evs s) = trace s \<and> cleanups (run evs s) = cleanups s
       \<and> connectionClosed (run evs s) = connectionClosed s
       \<and> splice_listeners (run evs s) = splice_listeners s
       \<and> dial_error_listener (run evs s) = dial_error_listener s
       \<and> client_timeout (run evs s) = client_timeout s
       \<and> outbound_timeout (run evs s) = outbound_timeout s"
  using assms
proof (induction evs arbitrary: s)
  case Nil
  then show ?case by (simp add: run_Nil)
next
  case (Cons e evs)
  from Cons.prems obtain sd where e: "e = RuntimeDestroyed sd"
    by (cases e) (simp_all add: fires_listener_def)
  from Cons.prems have "\<not> list_ex fires_listener evs" by simp
  from Cons.IH [OF this, of "mark_destroyed sd s"] show ?case
    by (cases sd) (simp_all add: run_Cons e mark_destroyed_def)
qed

lemma cleanup_open:
  assumes "\<not> connectionClosed s"
  shows "connectionClosed (cleanup s) \<and> client_destroyed (cleanup s)
       \<and> outbound_destroyed (cleanup s) \<and> cleanups (cleanup s) = cleanups s + 1
       \<and> splice_listeners (cleanup s) = splice_listeners s
       \<and> trace (cleanup s) = trace s
            @ (if client_destroyed s then [] else [Unpipe Client, Destroy Client])
            @ (if outbound_destroyed s then [] else [Unpipe Outbound, Destroy Outbound])"
  using assms
  by (simp add: cleanup_def Let_def destroy_def emit_def mark_destroyed_def)

lemma sendConnectError_frame:
  "connectionClosed (sendConnectError st r s) = connectionClosed s
   \<and> splice_listeners (sendConnectError st r s) = splice_listeners s
   \<and> cleanups (sendConnectError st r s) = cleanups s
   \<and> client_destroyed (sendConnectError st r s) = client_destroyed s
   \<and> outbound_destroyed (sendConnectError st r s) = outbound_destroyed s
   \<and> (\<exists>ws. trace (sendConnectError st r s) = trace s @ ws \<and> teardown ws = [])"
  by (simp add: sendConnectError_def emit_def teardown_def)

lemma teardown_append: "teardown (xs @ ys) = teardown xs @ teardown ys"
  by (simp add: teardown_def)

lemma on_event_fires:
  assumes "splice_listeners s" and "\<not> connectionClosed s" and "fires_listener e"
  shows "closed_down (on_event e s) \<and> cleanups (on_event e s) = cleanups s + 1
       \<and> (\<exists>ws. trace (on_event e s) = trace s @ ws \<and> teardown ws \<in> teardowns)"
proof -
  have plain: "closed_down (cleanup s) \<and> cleanups (cleanup s) = cleanups s + 1
       \<and> (\<exists>ws. trace (cleanup s) = trace s @ ws \<and> teardown ws \<in> teardowns)"
    using cleanup_open [OF assms(2)] assms(1)
    by (simp add: closed_down_def teardown_def teardowns_def)
  show ?thesis
  proof (cases "\<exists>m. e = SockError Outbound m \<and> dial_error_listener s")
    case False
    have "on_event e s = cleanup s"
    proof (cases e)
      case (SockError sd m)
      with False assms(1) show ?thesis
        by (cases sd) (simp_all add: calls_cleanup_def)
    qed (use assms in \<open>simp_all add: calls_cleanup_def fires_listener_def\<close>)
    with plain show ?thesis by simp
  next
    case True
    then obtain m where e: "e = SockError Outbound m" and d: "dial_error_listener s" by blast
    let ?s = "sendConnectError ''502 Bad Gateway'' (TargetFailed m) s"
    from sendConnectError_frame [of "''502 Bad Gateway''" "TargetFailed m" s]
    obtain ws where fr: "connectionClosed ?s = connectionClosed s"
        "splice_listeners ?s = splice_listeners s" "cleanups ?s = cleanups s"
        "trace ?s = trace s @ ws" "teardown ws = []"
      by blast
    have ev: "on_event e s = cleanup ?s"
      using assms(1) d fr by (simp add: e calls_cleanup_def)
    from fr assms have "\<not> connectionClosed ?s" by simp
    from cleanup_open [OF this] fr assms(1)
    have "closed_down (cleanup ?s)" "cleanups (cleanup ?s) = cleanups s + 1"
      "\<exists>ws'. trace (cleanup ?s) = trace s @ ws @ ws' \<and> teardown ws' \<in> teardowns"
      by (simp_all add: closed_down_def teardown_def teardowns_def)
    then show ?thesis
      using fr(5) by (auto simp: ev teardown_append)
  qed
qed

lemma since_append: "trace s' = trace s @ ws \<Longrightarrow> since s s' = ws"
  by (simp add: since_def)

lemma run_from_open:
  assumes "splice_listeners s" and "\<not> connectionClosed s"
  shows "cleanups (run evs s) = cleanups s + (if list_ex fires_listener evs then 1 else 0)
   \<and> (list_ex fires_listener evs \<longrightarrow> closed_down (run evs s))
   \<and> teardown (since s (run evs s)) \<in> teardowns"
proof (cases "list_ex fires_listener evs")
  case False
  from run_quiet [OF False, of s] have "trace (run evs s) = trace s"
      "cleanups (run evs s) = cleanups s"
    by simp_all
  with False show ?thesis
    by (simp add: since_def teardown_def teardowns_def)
next
  case True
  then have "\<exists>x\<in>set evs. fires_listener x"
    by (simp add: list_ex_iff)
  from split_list_first_prop [OF this] obtain pre e post where
    evs: "evs = pre @ e # post" and e: "fires_listener e" and
    quiet: "\<forall>y\<in>set pre. \<not> fires_listener y"
    by blast
  from quiet have pre: "\<not> list_ex fires_listener pre"
    by (simp add: list_ex_iff)
  let ?q = "run pre s"
  from run_quiet [OF pre, of s] assms
  have q: "splice_listeners ?q" "\<not> connectionClosed ?q" "cleanups ?q = cleanups s"
      "trace ?q = trace s"
    by simp_all
  from on_event_fires [OF q(1,2) e] obtain ws where
    f: "closed_down (on_event e ?q)" "cleanups (on_event e ?q) = cleanups ?q + 1"
       "trace (on_event e ?q) = trace ?q @ ws" "teardown ws \<in> teardowns"
    by blast
  have fin: "run evs s = on_event e ?q"
    by (simp add: evs run_append run_Cons run_closed_down [OF f(1)])
  have "since s (run evs s) = ws"
    using f(3) q(4) by (simp add: fin since_def)
  with f q True show ?thesis
    by (simp add: fin)
qed

text \<open>What the two connect callbacks leave behind on a live client socket.\<close>

lemma setup_state:
  "splice_listeners (setupSocketErrorHandlers srv h p c)
   \<and> \<not> connectionClosed (setupSocketErrorHandlers srv h p c)
   \<and> cleanups (setupSocketErrorHandlers srv h p c) = cleanups c
   \<and> trace (setupSocketErrorHandlers srv h p c) = trace c
   \<and> client_destroyed (setupSocketErrorHandlers srv h p c) = client_destroyed c
   \<and> outbound_destroyed (setupSocketErrorHandlers srv h p c) = outbound_destroyed c
   \<and> dial_error_listener (setupSocketErrorHandlers srv h p c) = dial_error_listener c
   \<and> client_timeout (setupSocketErrorHandlers srv h p c) = Some (timeoutMs srv h p)
   \<and> outbound_timeout (setupSocketErrorHandlers srv h p c) = Some (timeoutMs srv h p)"
  by (simp add: setupSocketErrorHandlers_def set_timeouts_def)

lemma direct_on_connect_state:
  assumes "\<not> client_destroyed c"
  shows "splice_listeners (direct_on_connect srv h p head c)
   \<and> \<not> connectionClosed (direct_on_connect srv h p head c)
   \<and> cleanups (direct_on_connect srv h p head c) = cleanups c
   \<and> \<not> client_destroyed (direct_on_connect srv h p head c)
   \<and> dial_error_listener (direct_on_connect srv h p head c) = dial_error_listener c
   \<and> client_timeout (direct_on_connect srv h p head c) = Some (timeoutMs srv h p)
   \<and> outbound_timeout (direct_on_connect srv h p head c) = Some (timeoutMs srv h p)
   \<and> trace (direct_on_connect srv h p head c) =
        trace c @ map (\<lambda>l. Write Client (Bytes l)) established_lines
          @ (if head \<noteq> [] then [Write Outbound (Bytes head)] else [])
          @ [Pipe Outbound, Pipe Client]"
  using assms
  by (simp add: direct_on_connect_def Let_def emit_def sock_write_def set_timeouts_def
      setupSocketErrorHandlers_def)

lemma proxy_on_connect_state:
  assumes "\<not> client_destroyed c"
  shows "splice_listeners (proxy_on_connect srv h p head proxyHead c)
   \<and> \<not> connectionClosed (proxy_on_connect srv h p head proxyHead c)
   \<and> cleanups (proxy_on_connect srv h p head proxyHead c) = cleanups c
   \<and> \<not> client_destroyed (proxy_on_connect srv h p head proxyHead c)
   \<and> outbound_destroyed (proxy_on_connect srv h p head proxyHead c) = outbound_destroyed c
   \<and> dial_error_listener (proxy_on_connect srv h p head proxyHead c) = dial_error_listener c
   \<and> client_timeout (proxy_on_connect srv h p head proxyHead c) = Some (timeoutMs srv h p)
   \<and> outbound_timeout (proxy_on_connect srv h p head proxyHead c) = Some (timeoutMs srv h p)
   \<and> trace (proxy_on_connect srv h p head proxyHead c) =
        trace c @ [Write Client (Bytes established_response)]
          @ (if head \<noteq> [] then [Write Outbound (Bytes head)] else [])
          @ (if proxyHead \<noteq> [] then [Write Client (Bytes proxyHead)] else [])"
  using assms
  by (simp add: proxy_on_connect_def Let_def emit_def sock_write_def set_timeouts_def
      setupSocketErrorHandlers_def)

text \<open>The write callback and the next tick change one flag and the trace, nothing else.\<close>

lemma proxy_tail_state:
  "splice_listeners (proxy_next_tick (proxy_write_callback err s)) = splice_listeners s
   \<and> connectionClosed (proxy_next_tick (proxy_write_callback err s)) = connectionClosed s
   \<and> cleanups (proxy_next_tick (proxy_write_callback err s)) = cleanups s
   \<and> client_destroyed (proxy_next_tick (proxy_write_callback err s)) = client_destroyed s
   \<and> dial_error_listener (proxy_next_tick (proxy_write_callback err s)) = dial_error_listener s
   \<and> client_timeout (proxy_next_tick (proxy_write_callback err s)) = client_timeout s
   \<and> outbound_timeout (proxy_next_tick (proxy_write_callback err s)) = outbound_timeout s
   \<and> trace (proxy_next_tick (proxy_write_callback err s)) =
        trace s @ (if err then [Destroy Outbound] else [])
          @ (if client_destroyed s \<or> outbound_destroyed s \<or> err then []
             else [Pipe Outbound, Pipe Client])"
  by (simp add: proxy_next_tick_def proxy_write_callback_def destroy_def emit_def
      mark_destroyed_def)

lemma tunnel_open:
  assumes "\<not> client_destroyed c"
      and "s = direct_on_connect srv h p head c
         \<or> s = proxy_next_tick (proxy_write_callback err
                  (proxy_on_connect srv h p head proxyHead c))"
  shows "splice_listeners s \<and> \<not> connectionClosed s \<and> cleanups s = cleanups c
       \<and> client_timeout s = Some (timeoutMs srv h p)
       \<and> outbound_timeout s = Some (timeoutMs srv h p)"
  using assms(2)
proof
  assume "s = direct_on_connect srv h p head c"
  with direct_on_connect_state [OF assms(1), of srv h p head] show ?thesis by simp
next
  assume s: "s = proxy_next_tick (proxy_write_callback err
                  (proxy_on_connect srv h p head proxyHead c))"
  from proxy_on_connect_state [OF assms(1), of srv h p head proxyHead]
    proxy_tail_state [of err "proxy_on_connect srv h p head proxyHead c"]
  show ?thesis by (simp add: s)
qed

text \<open>The example requests, after \<open>handleConnect\<close>.\<close>

lemma requested_443:
  "\<not> client_destroyed (requested default_server ''example.test:443'')
   \<and> cleanups (requested default_server ''example.test:443'') = 0
   \<and> trace (requested default_server ''example.test:443'') = []
   \<and> dial_error_listener (requested default_server ''example.test:443'')
   \<and> dialing (requested default_server ''example.test:443'')
       = Some (Direct ''example.test'' 443)"
  by (simp add: requested_def eval_defs)

lemma requested_8080:
  "\<not> client_destroyed (requested default_server ''example.test:8080'')
   \<and> cleanups (requested default_server ''example.test:8080'') = 0
   \<and> trace (requested default_server ''example.test:8080'') = []
   \<and> dialing (requested default_server ''example.test:8080'')
       = Some (Direct ''example.test'' 8080)"
  by (simp add: requested_def eval_defs)

lemma requested_proxied:
  "\<not> client_destroyed (requested http_upstream_server ''example.test:443'')
   \<and> \<not> outbound_destroyed (requested http_upstream_server ''example.test:443'')
   \<and> cleanups (requested http_upstream_server ''example.test:443'') = 0
   \<and> trace (requested http_upstream_server ''example.test:443'') = []
   \<and> \<not> dial_error_listener (requested http_upstream_server ''example.test:443'')
   \<and> dialing (requested http_upstream_server ''example.test:443'')
       = Some (ViaProxy (HttpProxyAgent ''http://up.test:8080'') ''example.test'' 443 30000)"
  by (simp add: requested_def http_upstream_server_def eval_defs del: decimal.simps)

lemma default_timeout: "srv_timeout default_server = 30000"
  by (simp add: default_server_def new_HttpsProxy_def nat_or_else_def)



subsection \<open>The success response\<close>

lemma concat_established_lines:
  "concat established_lines = spec_connect_established ''HTTPS-Proxy'' ''1.0''"
  by (simp add: established_lines_def spec_connect_established_def CRLF_def)

lemma established_response_spec:
  "established_response = spec_connect_established ''HTTPS-Proxy'' ''1.0''"
  by (simp add: established_response_def spec_connect_established_def CRLF_def)

lemma sent_to_append: "sent_to sd (xs @ ys) = sent_to sd xs @ sent_to sd ys"
  by (induction sd xs rule: sent_to.induct) simp_all

lemma sent_to_client_writes:
  "sent_to Client (map (\<lambda>l. Write Client (Bytes l)) ls) = map Bytes ls"
  by (induction ls) simp_all

lemma wire_bytes_map: "wire_bytes (map Bytes ls) = Some (concat ls)"
  by (induction ls) simp_all

lemma direct_client_bytes:
  assumes "\<not> client_destroyed c"
  shows "wire_bytes (sent_to Client (since c (direct_on_connect srv h p head c)))
           = Some (spec_connect_established ''HTTPS-Proxy'' ''1.0'')"
proof -
  from direct_on_connect_state [OF assms, of srv h p head]
  have "since c (direct_on_connect srv h p head c) =
          map (\<lambda>l. Write Client (Bytes l)) established_lines
          @ (if head \<noteq> [] then [Write Outbound (Bytes head)] else [])
          @ [Pipe Outbound, Pipe Client]"
    by (simp add: since_def)
  then have "sent_to Client (since c (direct_on_connect srv h p head c))
               = map Bytes established_lines"
    by (simp add: sent_to_append sent_to_client_writes)
  then show ?thesis
    by (simp add: wire_bytes_map concat_established_lines)
qed

lemma proxy_client_bytes:
  assumes "\<not> client_destroyed c"
  shows "wire_bytes (sent_to Client (since c (proxy_on_connect srv h p head proxyHead c)))
           = Some (spec_connect_established ''HTTPS-Proxy'' ''1.0'' @ proxyHead)"
proof -
  from proxy_on_connect_state [OF assms, of srv h p head proxyHead]
  have "since c (proxy_on_connect srv h p head proxyHead c) =
          [Write Client (Bytes established_response)]
          @ (if head \<noteq> [] then [Write Outbound (Bytes head)] else [])
          @ (if proxyHead \<noteq> [] then [Write Client (Bytes proxyHead)] else [])"
    by (simp add: since_def)
  then show ?thesis
    by (simp add: established_response_spec)
qed

text \<open>A request that starts a dial has written nothing and left the client socket alone.\<close>

lemma handleConnectViaProxy_cases:
  "(handleConnectViaProxy URL_new srv h p c = sendConnectError ''502 Bad Gateway'' NoProxyAgent c)
   \<or> (\<exists>ag. handleConnectViaProxy URL_new srv h p c
              = c\<lparr>dialing := Some (ViaProxy ag h p (srv_timeout srv))\<rparr>)"
  by (cases "createProxyAgent URL_new srv (''https://'' @ h @ '':'' @ decimal p) True")
     (auto simp add: handleConnectViaProxy_def simp del: decimal.simps)

lemma handleConnect_cases:
  "(\<exists>st r. handleConnect url_parse URL_new srv url client_open c = sendConnectError st r c)
   \<or> (\<exists>st r. handleConnect url_parse URL_new srv url client_open c
                = sendConnectError st r (c\<lparr>client_timeout := Some 60000\<rparr>))
   \<or> (\<not> client_destroyed c \<and>
       (\<exists>d. handleConnect url_parse URL_new srv url client_open c
              = c\<lparr>client_timeout := Some 60000, dialing := Some d\<rparr>
            \<or> handleConnect url_parse URL_new srv url client_open c
              = handleDirectConnect srv (fst (projr (validate_target url_parse url)))
                  (snd (projr (validate_target url_parse url)))
                  (c\<lparr>client_timeout := Some 60000\<rparr>)))"
proof (cases "validate_target url_parse url")
  case (Inl r)
  then show ?thesis by (auto simp: handleConnect_def)
next
  case (Inr hp)
  obtain h p where hp: "hp = (h, p)" by (cases hp)
  show ?thesis
  proof (cases "client_destroyed c \<or> \<not> client_open")
    case True
    with Inr hp show ?thesis by (auto simp: handleConnect_def)
  next
    case False
    let ?c1 = "c\<lparr>client_timeout := Some 60000\<rparr>"
    show ?thesis
    proof (cases "upstreamProxy srv = None \<or> upstreamProxy srv = Some []")
      case True
      with False Inr hp
      have "handleConnect url_parse URL_new srv url client_open c
              = handleDirectConnect srv h p ?c1"
        by (auto simp: handleConnect_def)
      with False Inr hp show ?thesis by simp
    next
      case direct: False
      with False Inr hp
      have eq: "handleConnect url_parse URL_new srv url client_open c
              = handleConnectViaProxy URL_new srv h p ?c1"
        by (auto simp: handleConnect_def split: option.splits)
      from handleConnectViaProxy_cases [of URL_new srv h p ?c1] show ?thesis
      proof
        assume "handleConnectViaProxy URL_new srv h p ?c1
                  = sendConnectError ''502 Bad Gateway'' NoProxyAgent ?c1"
        with eq show ?thesis by metis
      next
        assume "\<exists>ag. handleConnectViaProxy URL_new srv h p ?c1
              = ?c1\<lparr>dialing := Some (ViaProxy ag h p (srv_timeout srv))\<rparr>"
        with eq False show ?thesis by auto
      qed
    qed
  qed
qed

lemma sendConnectError_idle:
  "dialing c = None \<Longrightarrow> dialing (sendConnectError st r (c\<lparr>client_timeout := t\<rparr>)) \<noteq> Some d"
  by (simp add: sendConnectError_dialing)

lemma handleConnect_dials:
  assumes "dialing c = None"
      and "dialing (handleConnect url_parse URL_new srv url client_open c) = Some d"
  shows "trace (handleConnect url_parse URL_new srv url client_open c) = trace c
       \<and> \<not> client_destroyed (handleConnect url_parse URL_new srv url client_open c)
       \<and> cleanups (handleConnect url_parse URL_new srv url client_open c) = cleanups c"
proof -
  let ?c' = "handleConnect url_parse URL_new srv url client_open c"
  have no: "?c' \<noteq> sendConnectError st r c"
           "?c' \<noteq> sendConnectError st r (c\<lparr>client_timeout := Some 60000\<rparr>)" for st r
    using assms by (auto simp: sendConnectError_dialing)
  with handleConnect_cases [of url_parse URL_new srv url client_open c]
  have "\<not> client_destroyed c \<and>
       (\<exists>d. ?c' = c\<lparr>client_timeout := Some 60000, dialing := Some d\<rparr>
            \<or> ?c' = handleDirectConnect srv (fst (projr (validate_target url_parse url)))
                  (snd (projr (validate_target url_parse url)))
                  (c\<lparr>client_timeout := Some 60000\<rparr>))"
    by blast
  then show ?thesis
    by (auto simp: handleDirectConnect_def)
qed

text \<open>
  Claim C2. For a CONNECT request on a fresh connection whose target passed validation
  and for which a dial was started, everything written to the client from the arrival
  of the request to the end of the connect callback is, byte for byte, the response of
  the specification with agent \<open>HTTPS-Proxy/1.0\<close>: on the direct path as six writes,
  on the upstream path as one, there followed by whatever was read past the upstream's
  answer.
\<close>

theorem connect_established_bytes:
  assumes "dialing c = None"
      and "c' = handleConnect url_parse URL_new srv url client_open c"
  shows "(dialing c' = Some (Direct h p) \<longrightarrow>
            wire_bytes (sent_to Client (since c (direct_on_connect srv h p head c')))
              = Some (spec_connect_established ''HTTPS-Proxy'' ''1.0''))
       \<and> (dialing c' = Some (ViaProxy ag h p t) \<longrightarrow>
            wire_bytes (sent_to Client (since c (proxy_on_connect srv h p head proxyHead c')))
              = Some (spec_connect_established ''HTTPS-Proxy'' ''1.0'' @ proxyHead))"
proof -
  have live: "trace c' = trace c \<and> \<not> client_destroyed c'" if "dialing c' = Some d" for d
    using handleConnect_dials [OF assms(1), of url_parse URL_new srv url client_open d] that
    by (simp add: assms(2))
  have same: "since c s = since c' s" if "trace c' = trace c" for s
    using that by (simp add: since_def)
  have "wire_bytes (sent_to Client (since c (direct_on_connect srv h p head c')))
              = Some (spec_connect_established ''HTTPS-Proxy'' ''1.0'')"
    if "dialing c' = Some (Direct h p)"
    using live [OF that] direct_client_bytes [of c' srv h p head] same by simp
  moreover have "wire_bytes (sent_to Client (since c (proxy_on_connect srv h p head proxyHead c')))
              = Some (spec_connect_established ''HTTPS-Proxy'' ''1.0'' @ proxyHead)"
    if "dialing c' = Some (ViaProxy ag h p t)"
    using live [OF that] proxy_client_bytes [of c' srv h p head proxyHead] same by simp
  ultimately show ?thesis by blast
qed

theorem connect_established_bytes_witness:
  "wire_bytes (sent_to Client (since accepted tunnel_443))
     = Some (spec_connect_established ''HTTPS-Proxy'' ''1.0'')
   \<and> wire_bytes (sent_to Client (since accepted
         (proxy_on_connect http_upstream_server ''example.test'' 443 ''hello'' ''early''
            (requested http_upstream_server ''example.test:443''))))
     = Some (spec_connect_established ''HTTPS-Proxy'' ''1.0'' @ ''early'')"
proof -
  have idle: "dialing accepted = None"
    by (simp add: accepted_def)
  have d: "dialing (requested default_server ''example.test:443'')
             = Some (Direct ''example.test'' 443)"
    using requested_443 by blast
  have x: "dialing (requested http_upstream_server ''example.test:443'')
       = Some (ViaProxy (HttpProxyAgent ''http://up.test:8080'') ''example.test'' 443 30000)"
    using requested_proxied by blast
  note direct = connect_established_bytes
    [where c = accepted and c' = "requested default_server ''example.test:443''"
       and url_parse = url_parse_examples and URL_new = URL_examples
       and srv = default_server and url = "Some ''example.test:443''" and client_open = True
       and h = "''example.test''" and p = 443 and head = "''hello''"
       and ag = "HttpProxyAgent ''http://up.test:8080''" and t = 30000
       and proxyHead = "''early''", OF idle, THEN conjunct1]
  note proxied = connect_established_bytes
    [where c = accepted and c' = "requested http_upstream_server ''example.test:443''"
       and url_parse = url_parse_examples and URL_new = URL_examples
       and srv = http_upstream_server and url = "Some ''example.test:443''"
       and client_open = True
       and h = "''example.test''" and p = 443 and head = "''hello''"
       and ag = "HttpProxyAgent ''http://up.test:8080''" and t = 30000
       and proxyHead = "''early''", OF idle, THEN conjunct2]
  from direct d have "wire_bytes (sent_to Client (since accepted tunnel_443))
     = Some (spec_connect_established ''HTTPS-Proxy'' ''1.0'')"
    by (simp add: requested_def tunnel_443_def)
  moreover from proxied x have "wire_bytes (sent_to Client (since accepted
         (proxy_on_connect http_upstream_server ''example.test'' 443 ''hello'' ''early''
            (requested http_upstream_server ''example.test:443''))))
     = Some (spec_connect_established ''HTTPS-Proxy'' ''1.0'' @ ''early'')"
    by (simp add: requested_def)
  ultimately show ?thesis by blast
qed

subsection \<open>Bytes read ahead\<close>

lemma comes_before_pipes_at:
  "\<not> list_ex is_pipe xs \<Longrightarrow> comes_before_pipes a (xs @ a # ys)"
  by (induction xs) simp_all

lemma calls_before_at:
  "a \<notin> set xs \<Longrightarrow> calls_before a (xs @ a # ys) = xs"
  by (induction xs) (auto simp: calls_before_def)

lemma client_writes_no_pipe:
  "\<not> list_ex is_pipe (map (\<lambda>l. Write Client (Bytes l)) ls)"
  by (induction ls) (simp_all add: is_pipe_def)

lemma direct_since:
  assumes "\<not> client_destroyed c"
  shows "since c (direct_on_connect srv h p head c) =
          map (\<lambda>l. Write Client (Bytes l)) established_lines
          @ (if head \<noteq> [] then [Write Outbound (Bytes head)] else [])
          @ [Pipe Outbound, Pipe Client]"
  using direct_on_connect_state [OF assms, of srv h p head]
  by (simp add: since_def)

lemma proxy_since:
  assumes "\<not> client_destroyed c"
  shows "since c (proxy_next_tick (proxy_write_callback err
                  (proxy_on_connect srv h p head proxyHead c))) =
          [Write Client (Bytes established_response)]
          @ (if head \<noteq> [] then [Write Outbound (Bytes head)] else [])
          @ (if proxyHead \<noteq> [] then [Write Client (Bytes proxyHead)] else [])
          @ (if err then [Destroy Outbound] else [])
          @ (if outbound_destroyed c \<or> err then [] else [Pipe Outbound, Pipe Client])"
  using proxy_on_connect_state [OF assms, of srv h p head proxyHead]
    proxy_tail_state [of err "proxy_on_connect srv h p head proxyHead c"]
  by (simp add: since_def)

text \<open>
  Claim C3. On both paths the bytes read past the CONNECT request, when there are any,
  are written to the outbound socket before either pipe is installed, and on the
  upstream path the bytes read past the upstream's answer are written to the client
  before either pipe is installed; the pipes do follow (on the upstream path unless
  the response could not be written or the outbound socket is gone). Before the bytes
  read past the request are written to the outbound socket, nothing but the 200
  response has been written to the client and no pipe is installed: what the upstream
  sent past its answer, and all that the pipes carry, reaches the client later.
\<close>

theorem head_written_before_splicing:
  assumes "\<not> client_destroyed c"
  shows "(head \<noteq> [] \<longrightarrow>
            comes_before_pipes (Write Outbound (Bytes head))
              (since c (direct_on_connect srv h p head c))
          \<and> comes_before_pipes (Write Outbound (Bytes head))
              (since c (proxy_next_tick (proxy_write_callback err
                          (proxy_on_connect srv h p head proxyHead c)))))
       \<and> (proxyHead \<noteq> [] \<longrightarrow>
            comes_before_pipes (Write Client (Bytes proxyHead))
              (since c (proxy_next_tick (proxy_write_callback err
                          (proxy_on_connect srv h p head proxyHead c)))))
       \<and> list_ex is_pipe (since c (direct_on_connect srv h p head c))
       \<and> (\<not> err \<and> \<not> outbound_destroyed c \<longrightarrow>
            list_ex is_pipe
              (since c (proxy_next_tick (proxy_write_callback err
                          (proxy_on_connect srv h p head proxyHead c)))))
       \<and> (head \<noteq> [] \<longrightarrow>
            Write Outbound (Bytes head) \<in> set (since c (direct_on_connect srv h p head c))
          \<and> sent_to Client (calls_before (Write Outbound (Bytes head))
                (since c (direct_on_connect srv h p head c)))
              = map Bytes established_lines
          \<and> \<not> list_ex is_pipe (calls_before (Write Outbound (Bytes head))
                (since c (direct_on_connect srv h p head c)))
          \<and> Write Outbound (Bytes head)
              \<in> set (since c (proxy_next_tick (proxy_write_callback err
                          (proxy_on_connect srv h p head proxyHead c))))
          \<and> sent_to Client (calls_before (Write Outbound (Bytes head))
                (since c (proxy_next_tick (proxy_write_callback err
                          (proxy_on_connect srv h p head proxyHead c)))))
              = [Bytes established_response]
          \<and> \<not> list_ex is_pipe (calls_before (Write Outbound (Bytes head))
                (since c (proxy_next_tick (proxy_write_callback err
                          (proxy_on_connect srv h p head proxyHead c))))))"
proof -
  let ?w = "Write Outbound (Bytes head)"
  let ?d = "since c (direct_on_connect srv h p head c)"
  let ?x = "since c (proxy_next_tick (proxy_write_callback err
                          (proxy_on_connect srv h p head proxyHead c)))"
  let ?lines = "map (\<lambda>l. Write Client (Bytes l)) established_lines"
  have deq: "?d = ?lines @ ?w # [Pipe Outbound, Pipe Client]" if "head \<noteq> []"
    using that direct_since [OF assms, of srv h p head] by simp
  have xeq: "\<exists>ys. ?x = [Write Client (Bytes established_response)] @ ?w # ys"
    if "head \<noteq> []"
    using that proxy_since [OF assms, of err srv h p head proxyHead] by simp
  have fresh: "?w \<notin> set ?lines"
    by auto
  have d1: "comes_before_pipes ?w ?d" if "head \<noteq> []"
  proof -
    have "comes_before_pipes ?w (?lines @ ?w # [Pipe Outbound, Pipe Client])"
      by (rule comes_before_pipes_at) (rule client_writes_no_pipe)
    then show ?thesis by (simp only: deq [OF that])
  qed
  have x1: "comes_before_pipes ?w ?x" if "head \<noteq> []"
  proof -
    from xeq [OF that] obtain ys where
      eq: "?x = [Write Client (Bytes established_response)] @ ?w # ys"
      by blast
    have "comes_before_pipes ?w ([Write Client (Bytes established_response)] @ ?w # ys)"
      by (rule comes_before_pipes_at) (simp add: is_pipe_def)
    then show ?thesis
      by (simp only: eq)
  qed
  have x2: "comes_before_pipes (Write Client (Bytes proxyHead)) ?x" if "proxyHead \<noteq> []"
  proof -
    let ?pre = "[Write Client (Bytes established_response)]
                @ (if head \<noteq> [] then [Write Outbound (Bytes head)] else [])"
    from that proxy_since [OF assms, of err srv h p head proxyHead]
    obtain ys where eq: "?x = ?pre @ Write Client (Bytes proxyHead) # ys"
      by simp
    have "comes_before_pipes (Write Client (Bytes proxyHead))
            (?pre @ Write Client (Bytes proxyHead) # ys)"
      by (rule comes_before_pipes_at) (simp add: is_pipe_def)
    then show ?thesis
      by (simp only: eq)
  qed
  have d2: "list_ex is_pipe ?d"
    using direct_since [OF assms, of srv h p head] by (simp add: is_pipe_def)
  have x3: "list_ex is_pipe ?x" if "\<not> err" "\<not> outbound_destroyed c"
    using that proxy_since [OF assms, of err srv h p head proxyHead]
    by (simp add: is_pipe_def)
  have d3: "?w \<in> set ?d \<and> sent_to Client (calls_before ?w ?d) = map Bytes established_lines
            \<and> \<not> list_ex is_pipe (calls_before ?w ?d)" if "head \<noteq> []"
  proof -
    have "calls_before ?w (?lines @ ?w # [Pipe Outbound, Pipe Client]) = ?lines"
      by (rule calls_before_at) (rule fresh)
    then have cb: "calls_before ?w ?d = ?lines"
      by (simp only: deq [OF that])
    have "?w \<in> set (?lines @ ?w # [Pipe Outbound, Pipe Client])"
      by simp
    then have "?w \<in> set ?d"
      by (simp only: deq [OF that])
    then show ?thesis
      by (simp only: cb sent_to_client_writes client_writes_no_pipe not_False_eq_True simp_thms)
  qed
  have x4: "?w \<in> set ?x
            \<and> sent_to Client (calls_before ?w ?x) = [Bytes established_response]
            \<and> \<not> list_ex is_pipe (calls_before ?w ?x)" if "head \<noteq> []"
  proof -
    from xeq [OF that] obtain ys where
      eq: "?x = [Write Client (Bytes established_response)] @ ?w # ys"
      by blast
    have "calls_before ?w ([Write Client (Bytes established_response)] @ ?w # ys)
            = [Write Client (Bytes established_response)]"
      by (rule calls_before_at) simp
    then have cb: "calls_before ?w ?x = [Write Client (Bytes established_response)]"
      by (simp only: eq)
    have "?w \<in> set ([Write Client (Bytes established_response)] @ ?w # ys)"
      by simp
    then have "?w \<in> set ?x"
      by (simp only: eq)
    then show ?thesis
      by (simp add: cb is_pipe_def)
  qed
  from d1 x1 x2 d2 x3 d3 x4 show ?thesis by blast
qed

theorem head_written_before_splicing_witness:
  "comes_before_pipes (Write Outbound (Bytes ''hello''))
     (since (requested default_server ''example.test:443'') tunnel_443)
   \<and> comes_before_pipes (Write Outbound (Bytes ''hello''))
     (since (requested http_upstream_server ''example.test:443'') proxied_tunnel)
   \<and> comes_before_pipes (Write Client (Bytes ''early''))
     (since (requested http_upstream_server ''example.test:443'') proxied_tunnel)
   \<and> list_ex is_pipe (since (requested default_server ''example.test:443'') tunnel_443)
   \<and> list_ex is_pipe (since (requested http_upstream_server ''example.test:443'') proxied_tunnel)
   \<and> sent_to Client (calls_before (Write Outbound (Bytes ''hello''))
         (since (requested http_upstream_server ''example.test:443'') proxied_tunnel))
       = [Bytes established_response]
   \<and> sent_to Client (calls_before (Write Outbound (Bytes ''hello''))
         (since (requested default_server ''example.test:443'') tunnel_443))
       = map Bytes established_lines"
proof -
  have live: "\<not> client_destroyed (requested default_server ''example.test:443'')"
    using requested_443 by blast
  have live': "\<not> client_destroyed (requested http_upstream_server ''example.test:443'')"
      and up: "\<not> outbound_destroyed (requested http_upstream_server ''example.test:443'')"
    using requested_proxied by blast+
  note direct = head_written_before_splicing
    [OF live, where head = "''hello''" and srv = default_server and h = "''example.test''"
       and p = 443 and err = False and proxyHead = "[]"]
  note proxied = head_written_before_splicing
    [OF live', where head = "''hello''" and srv = http_upstream_server
       and h = "''example.test''" and p = 443 and err = False and proxyHead = "''early''"]
  have ne: "''hello'' \<noteq> []" "''early'' \<noteq> []" by simp_all
  from direct ne have "comes_before_pipes (Write Outbound (Bytes ''hello''))
     (since (requested default_server ''example.test:443'') tunnel_443)"
     "list_ex is_pipe (since (requested default_server ''example.test:443'') tunnel_443)"
    unfolding tunnel_443_def by blast+
  moreover from proxied ne up have
    "comes_before_pipes (Write Outbound (Bytes ''hello''))
       (since (requested http_upstream_server ''example.test:443'') proxied_tunnel)"
    "comes_before_pipes (Write Client (Bytes ''early''))
       (since (requested http_upstream_server ''example.test:443'') proxied_tunnel)"
    "list_ex is_pipe (since (requested http_upstream_server ''example.test:443'') proxied_tunnel)"
    unfolding proxied_tunnel_def by blast+
  moreover from proxied ne have
    "sent_to Client (calls_before (Write Outbound (Bytes ''hello''))
         (since (requested http_upstream_server ''example.test:443'') proxied_tunnel))
       = [Bytes established_response]"
    unfolding proxied_tunnel_def by blast
  moreover from direct ne have
    "sent_to Client (calls_before (Write Outbound (Bytes ''hello''))
         (since (requested default_server ''example.test:443'') tunnel_443))
       = map Bytes established_lines"
    unfolding tunnel_443_def by blast
  ultimately show ?thesis by blast
qed

subsection \<open>The idle timeout\<close>

text \<open>
  Claim C8, as the program has it. The 120 s that the connect callback sets on both
  sockets is replaced at once by \<open>setupSocketErrorHandlers\<close>: the idle timeout of a
  spliced tunnel is 60 s on both sockets when the target port is 443 or the host name
  contains \<open>tradingview\<close>, and the configured timeout (30 s by default) otherwise. The
  timer firing on either socket runs \<open>cleanup\<close>, which destroys both.
\<close>

theorem splice_idle_timeout:
  assumes "\<not> client_destroyed c"
      and "s = direct_on_connect srv h p head c
         \<or> s = proxy_next_tick (proxy_write_callback err
                  (proxy_on_connect srv h p head proxyHead c))"
  shows "client_timeout s
           = Some (if js_includes h ''tradingview'' \<or> p = 443 then 60000 else srv_timeout srv)
       \<and> outbound_timeout s
           = Some (if js_includes h ''tradingview'' \<or> p = 443 then 60000 else srv_timeout srv)
       \<and> client_destroyed (on_event (SockTimeout sd) s)
       \<and> outbound_destroyed (on_event (SockTimeout sd) s)
       \<and> cleanups (on_event (SockTimeout sd) s) = cleanups c + 1"
proof -
  from tunnel_open [OF assms] have
    o: "splice_listeners s" "\<not> connectionClosed s" and n: "cleanups s = cleanups c" and
    t: "client_timeout s = Some (timeoutMs srv h p)"
       "outbound_timeout s = Some (timeoutMs srv h p)"
    by simp_all
  have "list_ex fires_listener [SockTimeout sd]"
    by (simp add: fires_listener_def)
  with run_from_open [OF o, of "[SockTimeout sd]"] n
  have "closed_down (on_event (SockTimeout sd) s)"
       "cleanups (on_event (SockTimeout sd) s) = cleanups c + 1"
    by (simp_all add: run_single)
  with t show ?thesis
    by (simp add: closed_down_def timeoutMs_def)
qed

theorem splice_idle_timeout_witness:
  "client_timeout tunnel_8080 = Some 30000 \<and> outbound_timeout tunnel_8080 = Some 30000
   \<and> client_destroyed (on_event (SockTimeout Outbound) tunnel_8080)
   \<and> outbound_destroyed (on_event (SockTimeout Outbound) tunnel_8080)
   \<and> cleanups (on_event (SockTimeout Outbound) tunnel_8080) = 1"
proof -
  have live: "\<not> client_destroyed (requested default_server ''example.test:8080'')"
      and zero: "cleanups (requested default_server ''example.test:8080'') = 0"
    using requested_8080 by blast+
  have which: "tunnel_8080 = direct_on_connect default_server ''example.test'' 8080 ''hello''
                 (requested default_server ''example.test:8080'')
      \<or> tunnel_8080 = proxy_next_tick (proxy_write_callback False
                  (proxy_on_connect default_server ''example.test'' 8080 ''hello'' []
                     (requested default_server ''example.test:8080'')))"
    by (simp add: tunnel_8080_def)
  from splice_idle_timeout [OF live which, of Outbound] zero show ?thesis
    by (simp add: startsWith_def default_timeout)
qed

text \<open>
  The claim as written has 60 s by default and 120 s for port 443: a tunnel to port
  8080 of the default server has 30 s on both sockets, one to port 443 has 60 s.
\<close>

theorem splice_idle_timeout_is_30_and_60:
  "client_timeout tunnel_8080 = Some 30000 \<and> outbound_timeout tunnel_8080 = Some 30000
   \<and> client_timeout tunnel_443 = Some 60000 \<and> outbound_timeout tunnel_443 = Some 60000"
proof -
  have "\<not> client_destroyed (requested default_server ''example.test:8080'')"
    using requested_8080 by blast
  from direct_on_connect_state [OF this, of default_server "''example.test''" 8080 "''hello''"]
  have a: "client_timeout tunnel_8080 = Some 30000 \<and> outbound_timeout tunnel_8080 = Some 30000"
    by (simp add: tunnel_8080_def timeoutMs_def startsWith_def default_timeout)
  have "\<not> client_destroyed (requested default_server ''example.test:443'')"
    using requested_443 by blast
  from direct_on_connect_state [OF this, of default_server "''example.test''" 443 "''hello''"]
  have b: "client_timeout tunnel_443 = Some 60000 \<and> outbound_timeout tunnel_443 = Some 60000"
    by (simp add: tunnel_443_def timeoutMs_def startsWith_def)
  from a b show ?thesis by blast
qed

subsection \<open>Errors after the response\<close>

text \<open>Errors on a socket without the dial listener write nothing.\<close>

lemma cleanup_writes_nothing:
  "\<exists>ws. trace (cleanup s) = trace s @ ws \<and> sent_to sd ws = []
        \<and> dial_error_listener (cleanup s) = dial_error_listener s"
  by (simp add: cleanup_def Let_def destroy_def emit_def mark_destroyed_def)

lemma on_event_silent:
  assumes "\<not> dial_error_listener s"
  shows "\<exists>ws. trace (on_event e s) = trace s @ ws \<and> sent_to sd ws = []
        \<and> \<not> dial_error_listener (on_event e s)"
proof -
  have "on_event e s = s \<or> on_event e s = cleanup s
        \<or> (\<exists>x. on_event e s = mark_destroyed x s)"
  proof (cases e)
    case (SockError x m)
    with assms show ?thesis by (cases x) (simp_all add: calls_cleanup_def)
  qed (auto simp: calls_cleanup_def)
  moreover have "trace (mark_destroyed x s) = trace s
       \<and> dial_error_listener (mark_destroyed x s) = dial_error_listener s" for x
    by (cases x) (simp_all add: mark_destroyed_def)
  ultimately show ?thesis
    using assms cleanup_writes_nothing [of s sd] by auto
qed

lemma run_silent:
  assumes "\<not> dial_error_listener s"
  shows "sent_to sd (since s (run evs s)) = []"
proof -
  have "\<exists>ws. trace (run evs s) = trace s @ ws \<and> sent_to sd ws = []"
    using assms
  proof (induction evs arbitrary: s)
    case Nil
    then show ?case by (simp add: run_Nil)
  next
    case (Cons e evs)
    from on_event_silent [OF Cons.prems, of e sd] obtain ws where
      ws: "trace (on_event e s) = trace s @ ws" "sent_to sd ws = []"
          "\<not> dial_error_listener (on_event e s)"
      by blast
    from Cons.IH [OF ws(3)] obtain ws' where
      "trace (run evs (on_event e s)) = trace (on_event e s) @ ws'" "sent_to sd ws' = []"
      by blast
    with ws show ?case
      by (simp add: run_Cons sent_to_append)
  qed
  then show ?thesis by (auto simp: since_def)
qed

text \<open>
  With the dial listener still registered, an error of the outbound socket sends 502
  to a client socket that is alive, whatever was sent before.
\<close>

lemma dial_listener_writes_502:
  assumes "dial_error_listener s" and "\<not> client_destroyed s"
  shows "sent_to Client (since s (on_event (SockError Outbound m) s)) =
           [Bytes (''HTTP/1.1 502 Bad Gateway'' @ CRLF),
            Bytes (''Content-Type: text/plain'' @ CRLF),
            Bytes CRLF,
            Message (TargetFailed m)]"
proof -
  let ?s = "sendConnectError ''502 Bad Gateway'' (TargetFailed m) s"
  from since_sendConnectError [OF assms(2), of "''502 Bad Gateway''" "TargetFailed m"]
  have w: "trace ?s = trace s @
     [Write Client (Bytes (''HTTP/1.1 502 Bad Gateway'' @ CRLF)),
      Write Client (Bytes (''Content-Type: text/plain'' @ CRLF)),
      Write Client (Bytes CRLF),
      Write Client (Message (TargetFailed m)),
      EndStream Client]"
    using assms(2) by (simp add: sendConnectError_def emit_def)
  have "on_event (SockError Outbound m) s = ?s \<or> on_event (SockError Outbound m) s = cleanup ?s"
    using assms(1) by (simp add: calls_cleanup_def)
  moreover from cleanup_writes_nothing [of ?s Client] obtain ws where
    "trace (cleanup ?s) = trace ?s @ ws" "sent_to Client ws = []"
    by blast
  ultimately show ?thesis
    using w by (auto simp: since_def sent_to_append)
qed

text \<open>
  Claim C7 fails on the direct path. After the 200 response of a direct tunnel to
  \<open>example.test:443\<close>, the outbound socket is reset: the \<open>error\<close> listener that
  \<open>handleDirectConnect\<close> registered for the dial is still there and writes
  \<open>502 Bad Gateway\<close> to the client, into the tunnel.
\<close>

theorem error_after_200_writes_502:
  "wire_bytes (sent_to Client (trace tunnel_443))
     = Some (spec_connect_established ''HTTPS-Proxy'' ''1.0'')
   \<and> sent_to Client (since tunnel_443
         (run [RuntimeDestroyed Outbound, SockError Outbound ''read ECONNRESET''] tunnel_443))
     = [Bytes (''HTTP/1.1 502 Bad Gateway'' @ CRLF),
        Bytes (''Content-Type: text/plain'' @ CRLF),
        Bytes CRLF,
        Message (TargetFailed ''read ECONNRESET'')]"
proof -
  let ?r = "requested default_server ''example.test:443''"
  have r: "\<not> client_destroyed ?r" "trace ?r = []" "dial_error_listener ?r"
    using requested_443 by blast+
  from direct_client_bytes [OF r(1), of default_server "''example.test''" 443 "''hello''"] r(2)
  have first: "wire_bytes (sent_to Client (trace tunnel_443))
     = Some (spec_connect_established ''HTTPS-Proxy'' ''1.0'')"
    by (simp add: since_def tunnel_443_def)
  let ?s = "mark_destroyed Outbound tunnel_443"
  from direct_on_connect_state [OF r(1), of default_server "''example.test''" 443 "''hello''"] r(3)
  have "dial_error_listener ?s" "\<not> client_destroyed ?s" "trace ?s = trace tunnel_443"
    by (simp_all add: tunnel_443_def mark_destroyed_def)
  from dial_listener_writes_502 [OF this(1,2), of "''read ECONNRESET''"] this(3)
  have "sent_to Client (since tunnel_443
         (run [RuntimeDestroyed Outbound, SockError Outbound ''read ECONNRESET''] tunnel_443))
     = [Bytes (''HTTP/1.1 502 Bad Gateway'' @ CRLF),
        Bytes (''Content-Type: text/plain'' @ CRLF),
        Bytes CRLF,
        Message (TargetFailed ''read ECONNRESET'')]"
    by (simp add: run_Cons run_Nil since_def)
  with first show ?thesis by blast
qed

text \<open>On the upstream path the request's listeners are not on the socket: no such write.\<close>

lemma proxied_tunnel_errors_silent:
  "sent_to Client (since proxied_tunnel (run evs proxied_tunnel)) = []"
proof -
  let ?r = "requested http_upstream_server ''example.test:443''"
  have r: "\<not> client_destroyed ?r" "\<not> dial_error_listener ?r"
    using requested_proxied by blast+
  from proxy_on_connect_state [OF r(1), of http_upstream_server "''example.test''" 443
      "''hello''" "''early''"]
    proxy_tail_state [of False "proxy_on_connect http_upstream_server ''example.test'' 443
      ''hello'' ''early'' ?r"] r(2)
  have "\<not> dial_error_listener proxied_tunnel"
    by (simp add: proxied_tunnel_def)
  then show ?thesis by (rule run_silent)
qed

end
